theory Spec2Isabelle
  imports Complex_Main "HOL-Library.AList"
begin

section \<open>The merchant graph analyzer of services/graph\_model.py\<close>

text \<open>
  The development embeds \<open>MerchantGraphAnalyzer\<close>. Conventions:
  \<^item> a Python \<open>float\<close> is the \<open>real\<close> it stands for (infinities and NaN are not
    modelled); the additions that accumulate amounts round as the addition of binary64
    numbers does (\<open>float_add\<close>), the other operations on floats are exact;
  \<^item> a Python \<open>int\<close> is an \<open>int\<close>;
  \<^item> a \<open>datetime\<close> is an \<open>int\<close>, the number of microseconds since some epoch, so that a
    difference of two of them is a \<open>timedelta\<close> given by its number of microseconds;
  \<^item> a \<open>dict\<close> is an association list in insertion order, a \<open>set\<close> is a set;
  \<^item> a call that may raise returns \<open>py_error + 'a\<close>, and an operation that mutates the
    analyzer returns the analyzer as it is left, also when it raises;
  \<^item> the algorithms of networkx and numpy and the formatting of numbers are not part of
    the repository: they are the fields of an environment \<open>env\<close> that every analysis
    takes as a parameter, and each of them may raise; a set that such a call returns
    is the list of its elements.
\<close>

subsection \<open>Errors\<close>

datatype py_error = KeyError string | ZeroDivisionError | LibraryError string

fun py_str :: "py_error \<Rightarrow> string" where
  "py_str (KeyError k) = [CHR 0x27] @ k @ [CHR 0x27]"
| "py_str ZeroDivisionError = ''division by zero''"
| "py_str (LibraryError msg) = msg"

definition py_bind :: "py_error + 'a \<Rightarrow> ('a \<Rightarrow> py_error + 'b) \<Rightarrow> py_error + 'b" where
  "py_bind m f = (case m of Inl e \<Rightarrow> Inl e | Inr v \<Rightarrow> f v)"

definition py_div :: "real \<Rightarrow> real \<Rightarrow> py_error + real" where
  "py_div a b = (if b = 0 then Inl ZeroDivisionError else Inr (a / b))"

subsection \<open>Addition of floats\<close>

text \<open>
  The sum of two binary64 numbers is their exact sum rounded to the nearest binary64
  number, a tie going to the even significand. \<open>to_double\<close> rounds a real so: the
  spacing of the binary64 numbers around \<open>x\<close> is 2 to the power of the binary exponent
  of \<open>x\<close> (at least -1022, below which the numbers are subnormal) less 52. A sum beyond
  the largest binary64 number, which Python gives as infinity, is not modelled.
\<close>

fun bit_length :: "nat \<Rightarrow> nat" where
  "bit_length n = (if n = 0 then 0 else Suc (bit_length (n div 2)))"

definition pow2 :: "int \<Rightarrow> real" where
  "pow2 k = (if 0 \<le> k then 2 ^ nat k else 1 / 2 ^ nat (- k))"

text \<open>The integer \<open>e\<close> with \<open>2 ^ e \<le> \<bar>x\<bar> < 2 ^ (e + 1)\<close>, for \<open>x \<noteq> 0\<close>.\<close>

definition binary_exponent :: "real \<Rightarrow> int" where
  "binary_exponent x =
     (if 1 \<le> \<bar>x\<bar> then int (bit_length (nat \<lfloor>\<bar>x\<bar>\<rfloor>)) - 1
      else - int (bit_length (nat (\<lceil>1 / \<bar>x\<bar>\<rceil> - 1))))"

definition round_half_even :: "real \<Rightarrow> int" where
  "round_half_even y =
     (if y - of_int \<lfloor>y\<rfloor> < 1 / 2 then \<lfloor>y\<rfloor>
      else if 1 / 2 < y - of_int \<lfloor>y\<rfloor> then \<lfloor>y\<rfloor> + 1
      else if even \<lfloor>y\<rfloor> then \<lfloor>y\<rfloor> else \<lfloor>y\<rfloor> + 1)"

definition to_double :: "real \<Rightarrow> real" where
  "to_double x =
     (if x = 0 then 0
      else let q = pow2 (max (binary_exponent x) (- 1022) - 52)
           in of_int (round_half_even (x / q)) * q)"

definition float_add :: "real \<Rightarrow> real \<Rightarrow> real" where
  "float_add x y = to_double (x + y)"

subsection \<open>Strings\<close>

fun starts_with :: "string \<Rightarrow> string \<Rightarrow> bool" where
  "starts_with [] ys = True"
| "starts_with (x # xs) [] = False"
| "starts_with (x # xs) (y # ys) = (x = y \<and> starts_with xs ys)"

text \<open>\<open>py_in a b\<close> is Python's \<open>a in b\<close> on strings: \<open>a\<close> occurs in \<open>b\<close> as a substring.\<close>

fun py_in :: "string \<Rightarrow> string \<Rightarrow> bool" where
  "py_in xs [] = (xs = [])"
| "py_in xs (y # ys) = (starts_with xs (y # ys) \<or> py_in xs ys)"

text \<open>
  \<open>user_id or d\<close> for an optional string: \<open>None\<close> and the empty string are false.
\<close>

fun py_or :: "string option \<Rightarrow> string \<Rightarrow> string" where
  "py_or None d = d"
| "py_or (Some s) d = (if s = [] then d else s)"

subsection \<open>Time\<close>

text \<open>
  The fields of a normalised \<open>timedelta\<close> of \<open>d\<close> microseconds: \<open>days\<close> may be negative,
  \<open>seconds\<close> lies in \<open>0..86399\<close>; \<open>total_seconds()\<close> is the whole duration.
\<close>

definition td_days :: "int \<Rightarrow> int" where
  "td_days d = d div 86400000000"

definition td_seconds :: "int \<Rightarrow> int" where
  "td_seconds d = (d mod 86400000000) div 1000000"

definition total_seconds :: "int \<Rightarrow> real" where
  "total_seconds d = real_of_int d / 1000000"

subsection \<open>The graphs\<close>

record node_data =
  node_type :: string
  total_transactions :: int
  node_total_amount :: real
  unique_customers :: "string set option"
  unique_merchants :: "string set option"
  first_seen :: int
  last_seen :: int

record edge_data =
  transaction_count :: int
  total_amount :: real
  first_transaction :: int
  last_transaction :: int
  amounts :: "real list"

record arc_data =
  arc_amount :: real
  arc_timestamp :: int
  arc_metadata :: "(string \<times> string) list"

text \<open>
  \<open>nx.Graph\<close>: the node dictionary, and one entry per undirected edge, stored under the
  pair it was created with and found under either orientation.
\<close>

record graph =
  nodes :: "(string \<times> node_data) list"
  edges :: "((string \<times> string) \<times> edge_data) list"

text \<open>\<open>nx.DiGraph\<close>: one entry per ordered pair (a later arc replaces the attributes).\<close>

record digraph =
  d_nodes :: "string list"
  d_edges :: "((string \<times> string) \<times> arc_data) list"

definition has_node :: "graph \<Rightarrow> string \<Rightarrow> bool" where
  "has_node g n = (map_of (nodes g) n \<noteq> None)"

definition nodes_get :: "graph \<Rightarrow> string \<Rightarrow> py_error + node_data" where
  "nodes_get g n = (case map_of (nodes g) n of None \<Rightarrow> Inl (KeyError n) | Some d \<Rightarrow> Inr d)"

definition add_node :: "graph \<Rightarrow> string \<Rightarrow> node_data \<Rightarrow> graph" where
  "add_node g n d = g\<lparr>nodes := AList.update n d (nodes g)\<rparr>"

text \<open>A write through the attribute dictionary of node \<open>n\<close>.\<close>

definition set_node :: "graph \<Rightarrow> string \<Rightarrow> (node_data \<Rightarrow> node_data) \<Rightarrow> graph" where
  "set_node g n f = g\<lparr>nodes := AList.map_entry n f (nodes g)\<rparr>"

definition edge_key :: "graph \<Rightarrow> string \<Rightarrow> string \<Rightarrow> (string \<times> string) option" where
  "edge_key g u v =
     (if map_of (edges g) (u, v) \<noteq> None then Some (u, v)
      else if map_of (edges g) (v, u) \<noteq> None then Some (v, u)
      else None)"

definition has_edge :: "graph \<Rightarrow> string \<Rightarrow> string \<Rightarrow> bool" where
  "has_edge g u v = (edge_key g u v \<noteq> None)"

definition edges_get :: "graph \<Rightarrow> string \<Rightarrow> string \<Rightarrow> py_error + edge_data" where
  "edges_get g u v =
     (case edge_key g u v of
        None \<Rightarrow> Inl (KeyError v)
      | Some k \<Rightarrow> (case map_of (edges g) k of None \<Rightarrow> Inl (KeyError v) | Some e \<Rightarrow> Inr e))"

text \<open>
  \<open>add_edge\<close> is only called with both end nodes present, so the nodes it would create
  otherwise are left out.
\<close>

definition add_edge :: "graph \<Rightarrow> string \<Rightarrow> string \<Rightarrow> edge_data \<Rightarrow> graph" where
  "add_edge g u v e =
     g\<lparr>edges := AList.update (case edge_key g u v of None \<Rightarrow> (u, v) | Some k \<Rightarrow> k) e (edges g)\<rparr>"

definition set_edge :: "graph \<Rightarrow> string \<Rightarrow> string \<Rightarrow> (edge_data \<Rightarrow> edge_data) \<Rightarrow> graph" where
  "set_edge g u v f =
     (case edge_key g u v of
        None \<Rightarrow> g
      | Some k \<Rightarrow> g\<lparr>edges := AList.map_entry k f (edges g)\<rparr>)"

definition neighbors :: "graph \<Rightarrow> string \<Rightarrow> py_error + string list" where
  "neighbors g n =
     (if has_node g n
      then Inr (concat (map (\<lambda>((a, b), e). if a = n then [b] else if b = n then [a] else [])
                            (edges g)))
      else Inl (LibraryError ''The node is not in the graph.''))"

definition d_add_edge :: "digraph \<Rightarrow> string \<Rightarrow> string \<Rightarrow> arc_data \<Rightarrow> digraph" where
  "d_add_edge dg u v a =
     (let ns = (if u \<in> set (d_nodes dg) then d_nodes dg else d_nodes dg @ [u])
      in dg\<lparr>d_nodes := (if v \<in> set ns then ns else ns @ [v]),
            d_edges := AList.update (u, v) a (d_edges dg)\<rparr>)"

subsection \<open>Results of an analysis\<close>

record centrality_m =
  degree :: real
  betweenness :: real
  closeness :: real

record clustering_m =
  local_clustering :: real
  global_clustering :: real
  community_size :: int
  total_communities :: int

record velocity_m =
  transactions_per_hour :: real
  amount_per_hour :: real
  unique_customers_count :: int
  avg_transaction_amount :: real
  time_span_hours :: real

record relationship_m =
  rel_transaction_count :: int
  rel_total_amount :: real
  rel_avg_amount :: real
  relationship_age_days :: int

text \<open>
  The dictionary a sub-analysis returns: \<open>metrics\<close> (\<open>None\<close> for the empty dictionary
  of the error branches, and for the missing \<open>relationship_metrics\<close>),
  \<open>risk_contribution\<close> and \<open>factors\<close>.
\<close>

record 'm sub_analysis =
  metrics :: "'m option"
  risk_contribution :: real
  sub_factors :: "string list"

record anomaly =
  anomaly_type :: string
  description :: string
  severity :: string

text \<open>
  The dictionary \<open>analyze_merchant_risk\<close> returns. The three metrics entries are \<open>None\<close>
  while they hold the initial empty dictionary; the error result has none of the
  entries after \<open>factors\<close> but \<open>error\<close>, which the other results do not have.
\<close>

record risk_analysis =
  res_merchant_id :: string
  risk_score :: real
  factors :: "string list"
  centrality_metrics :: "centrality_m sub_analysis option"
  clustering_metrics :: "clustering_m sub_analysis option"
  velocity_metrics :: "velocity_m sub_analysis option"
  network_anomalies :: "anomaly list"
  recommendations :: "string list"
  error :: "string option"

subsection \<open>The analyzer and the libraries it calls\<close>

record analyzer =
  merchant_graph :: graph
  transaction_graph :: digraph
  risk_cache :: "(string \<times> (risk_analysis \<times> int)) list"
  cache_ttl :: int
  high_centrality_threshold :: real
  suspicious_clustering_threshold :: real
  velocity_threshold :: real

definition init :: analyzer where
  "init = \<lparr>merchant_graph = \<lparr>nodes = [], edges = []\<rparr>,
           transaction_graph = \<lparr>d_nodes = [], d_edges = []\<rparr>,
           risk_cache = [],
           cache_ttl = 3600,
           high_centrality_threshold = 0.8,
           suspicious_clustering_threshold = 0.9,
           velocity_threshold = 100\<rparr>"

record env =
  nx_degree_centrality :: "graph \<Rightarrow> py_error + (string \<Rightarrow> real option)"
  nx_betweenness_centrality :: "graph \<Rightarrow> nat \<Rightarrow> py_error + (string \<Rightarrow> real option)"
  nx_is_connected :: "graph \<Rightarrow> py_error + bool"
  nx_closeness_centrality :: "graph \<Rightarrow> py_error + (string \<Rightarrow> real option)"
  nx_clustering :: "graph \<Rightarrow> string \<Rightarrow> py_error + real"
  nx_average_clustering :: "graph \<Rightarrow> py_error + real"
  nx_connected_components :: "graph \<Rightarrow> py_error + string list list"
  nx_node_connected_component :: "graph \<Rightarrow> string \<Rightarrow> py_error + string list"
  nx_has_path :: "digraph \<Rightarrow> string \<Rightarrow> string \<Rightarrow> py_error + bool"
  nx_shortest_path :: "digraph \<Rightarrow> string \<Rightarrow> string \<Rightarrow> py_error + string list"
  np_var :: "real list \<Rightarrow> py_error + real"
  fmt_3f :: "real \<Rightarrow> string"
  fmt_1f :: "real \<Rightarrow> string"
  str_int :: "int \<Rightarrow> string"

subsection \<open>Recording a transaction\<close>

text \<open>
  \<open>_invalidate_cache\<close>: the first loop collects the keys that contain either identity,
  the second deletes them.
\<close>

definition invalidate_cache :: "analyzer \<Rightarrow> string \<Rightarrow> string \<Rightarrow> analyzer" where
  "invalidate_cache s merchant_id user_id =
     (let keys_to_remove =
            filter (\<lambda>key. py_in merchant_id key \<or> py_in user_id key) (map fst (risk_cache s))
      in s\<lparr>risk_cache := fold AList.delete keys_to_remove (risk_cache s)\<rparr>)"

text \<open>
  \<open>add_transaction_edge\<close>. The attribute dictionary of a merchant node has the key
  \<open>unique_customers\<close> and that of a user node the key \<open>unique_merchants\<close>; reading the
  one a node does not have raises \<open>KeyError\<close>, and the analyzer stays as the statements
  before have left it. Every write goes to the graph at once, so that the two
  dictionaries are the same one when \<open>user_id = merchant_id\<close>, as in the source.
\<close>

definition add_transaction_edge ::
  "analyzer \<Rightarrow> string \<Rightarrow> string \<Rightarrow> real \<Rightarrow> int \<Rightarrow> (string \<times> string) list option
     \<Rightarrow> (py_error + unit) \<times> analyzer" where
  "add_transaction_edge s user_id merchant_id amount timestamp metadata =
     (let g0 = merchant_graph s;
          g1 = (if \<not> has_node g0 merchant_id
                then add_node g0 merchant_id
                       \<lparr>node_type = ''merchant'', total_transactions = 0, node_total_amount = 0,
                        unique_customers = Some {}, unique_merchants = None,
                        first_seen = timestamp, last_seen = timestamp\<rparr>
                else g0);
          g2 = (if \<not> has_node g1 user_id
                then add_node g1 user_id
                       \<lparr>node_type = ''user'', total_transactions = 0, node_total_amount = 0,
                        unique_customers = None, unique_merchants = Some {},
                        first_seen = timestamp, last_seen = timestamp\<rparr>
                else g1);
          g3 = set_node g2 merchant_id
                 (\<lambda>d. d\<lparr>total_transactions := total_transactions d + 1,
                         node_total_amount := float_add (node_total_amount d) amount\<rparr>)
      in case py_bind (nodes_get g3 merchant_id) (\<lambda>d.
                case unique_customers d of
                  None \<Rightarrow> Inl (KeyError ''unique_customers'')
                | Some cs \<Rightarrow> Inr cs) of
           Inl e \<Rightarrow> (Inl e, s\<lparr>merchant_graph := g3\<rparr>)
         | Inr cs \<Rightarrow>
            (let g4 = set_node g3 merchant_id
                        (\<lambda>d. d\<lparr>unique_customers := Some (insert user_id cs),
                                last_seen := max (last_seen d) timestamp\<rparr>);
                 g5 = set_node g4 user_id
                        (\<lambda>d. d\<lparr>total_transactions := total_transactions d + 1,
                                node_total_amount := float_add (node_total_amount d) amount\<rparr>)
             in case py_bind (nodes_get g5 user_id) (\<lambda>d.
                       case unique_merchants d of
                         None \<Rightarrow> Inl (KeyError ''unique_merchants'')
                       | Some ms \<Rightarrow> Inr ms) of
                  Inl e \<Rightarrow> (Inl e, s\<lparr>merchant_graph := g5\<rparr>)
                | Inr ms \<Rightarrow>
                   (let g6 = set_node g5 user_id
                               (\<lambda>d. d\<lparr>unique_merchants := Some (insert merchant_id ms),
                                       last_seen := max (last_seen d) timestamp\<rparr>);
                        g7 = (if has_edge g6 user_id merchant_id
                              then set_edge g6 user_id merchant_id
                                     (\<lambda>e. e\<lparr>transaction_count := transaction_count e + 1,
                                             total_amount := float_add (total_amount e) amount,
                                             last_transaction := timestamp,
                                             amounts := amounts e @ [amount]\<rparr>)
                              else add_edge g6 user_id merchant_id
                                     \<lparr>transaction_count = 1, total_amount = amount,
                                      first_transaction = timestamp,
                                      last_transaction = timestamp, amounts = [amount]\<rparr>);
                        dg = d_add_edge (transaction_graph s) user_id merchant_id
                               \<lparr>arc_amount = amount, arc_timestamp = timestamp,
                                arc_metadata = (case metadata of None \<Rightarrow> [] | Some md \<Rightarrow> md)\<rparr>
                    in (Inr (),
                        invalidate_cache (s\<lparr>merchant_graph := g7, transaction_graph := dg\<rparr>)
                          merchant_id user_id))))"

subsection \<open>The sub-analyses\<close>

definition dict_get :: "('k \<Rightarrow> 'v option) \<Rightarrow> 'k \<Rightarrow> 'v \<Rightarrow> 'v" where
  "dict_get d k dflt = (case d k of None \<Rightarrow> dflt | Some v \<Rightarrow> v)"

definition empty_sub :: "'m sub_analysis" where
  "empty_sub = \<lparr>metrics = None, risk_contribution = 0, sub_factors = []\<rparr>"

text \<open>The body of the \<open>try\<close> of \<open>_analyze_centrality\<close>.\<close>

definition centrality_try :: "env \<Rightarrow> analyzer \<Rightarrow> string \<Rightarrow> py_error + centrality_m sub_analysis" where
  "centrality_try lib s merchant_id =
     (let g = merchant_graph s in
      py_bind
        (if length (nodes g) > 1
         then py_bind (nx_degree_centrality lib g) (\<lambda>degree_centrality.
              py_bind (if length (nodes g) < 1000
                       then py_bind (nx_betweenness_centrality lib g 100) (\<lambda>bc.
                              Inr (dict_get bc merchant_id 0))
                       else Inr 0) (\<lambda>b.
              py_bind (nx_is_connected lib g) (\<lambda>connected.
              py_bind (if connected
                       then py_bind (nx_closeness_centrality lib g) (\<lambda>cc.
                              Inr (dict_get cc merchant_id 0))
                       else Inr 0) (\<lambda>c.
              Inr \<lparr>degree = dict_get degree_centrality merchant_id 0,
                   betweenness = b, closeness = c\<rparr>))))
         else Inr \<lparr>degree = 0, betweenness = 0, closeness = 0\<rparr>)
        (\<lambda>cm.
           let r1 = (if degree cm > high_centrality_threshold s then 0.3 else 0);
               f1 = (if degree cm > high_centrality_threshold s
                     then [''High degree centrality ('' @ fmt_3f lib (degree cm) @ '')'']
                     else []);
               r2 = (if betweenness cm > high_centrality_threshold s then 0.2 else 0);
               f2 = (if betweenness cm > high_centrality_threshold s
                     then [''High betweenness centrality ('' @ fmt_3f lib (betweenness cm) @ '')'']
                     else [])
           in Inr \<lparr>metrics = Some cm, risk_contribution = 0 + r1 + r2, sub_factors = f1 @ f2\<rparr>))"

definition analyze_centrality :: "env \<Rightarrow> analyzer \<Rightarrow> string \<Rightarrow> centrality_m sub_analysis" where
  "analyze_centrality lib s merchant_id =
     (case centrality_try lib s merchant_id of Inl e \<Rightarrow> empty_sub | Inr r \<Rightarrow> r)"

definition clustering_try :: "env \<Rightarrow> analyzer \<Rightarrow> string \<Rightarrow> py_error + clustering_m sub_analysis" where
  "clustering_try lib s merchant_id =
     (let g = merchant_graph s in
      py_bind (nx_clustering lib g merchant_id) (\<lambda>clustering_coeff.
      py_bind (nx_average_clustering lib g) (\<lambda>glob.
      py_bind (nx_connected_components lib g) (\<lambda>communities.
        let merchant_community_size =
              (case find (\<lambda>community. merchant_id \<in> set community) communities of
                 None \<Rightarrow> 0
               | Some community \<Rightarrow> int (length community));
            r1 = (if clustering_coeff > suspicious_clustering_threshold s then 0.2 else 0);
            f1 = (if clustering_coeff > suspicious_clustering_threshold s
                  then [''Suspicious clustering pattern ('' @ fmt_3f lib clustering_coeff @ '')'']
                  else []);
            r2 = (if merchant_community_size > 50 \<and> clustering_coeff > 0.7 then 0.3 else 0);
            f2 = (if merchant_community_size > 50 \<and> clustering_coeff > 0.7
                  then [''Large tight community ('' @ str_int lib merchant_community_size
                          @ '' members)'']
                  else [])
        in Inr \<lparr>metrics = Some \<lparr>local_clustering = clustering_coeff,
                                 global_clustering = glob,
                                 community_size = merchant_community_size,
                                 total_communities = int (length communities)\<rparr>,
                 risk_contribution = 0 + r1 + r2, sub_factors = f1 @ f2\<rparr>))))"

definition analyze_clustering :: "env \<Rightarrow> analyzer \<Rightarrow> string \<Rightarrow> clustering_m sub_analysis" where
  "analyze_clustering lib s merchant_id =
     (case clustering_try lib s merchant_id of Inl e \<Rightarrow> empty_sub | Inr r \<Rightarrow> r)"

text \<open>
  The time span of a node in hours, as \<open>_analyze_velocity\<close> and \<open>_detect_burst_pattern\<close>
  compute it.
\<close>

definition span_hours :: "node_data \<Rightarrow> real" where
  "span_hours d = total_seconds (last_seen d - first_seen d) / 3600"

definition velocity_try :: "env \<Rightarrow> analyzer \<Rightarrow> string \<Rightarrow> py_error + velocity_m sub_analysis" where
  "velocity_try lib s merchant_id =
     (let g = merchant_graph s in
      if \<not> has_node g merchant_id then Inr empty_sub
      else
      py_bind (nodes_get g merchant_id) (\<lambda>merchant_data.
        let time_span = (if span_hours merchant_data = 0 then 1 else span_hours merchant_data) in
      py_bind (py_div (real_of_int (total_transactions merchant_data)) time_span) (\<lambda>tph.
      py_bind (py_div (node_total_amount merchant_data) time_span) (\<lambda>aph.
      py_bind (case unique_customers merchant_data of
                 None \<Rightarrow> Inl (KeyError ''unique_customers'')
               | Some cs \<Rightarrow> Inr (int (card cs))) (\<lambda>ucs.
      py_bind (py_div (node_total_amount merchant_data)
                 (real_of_int (total_transactions merchant_data))) (\<lambda>avg.
        let r1 = (if tph > velocity_threshold s then 0.3 else 0);
            f1 = (if tph > velocity_threshold s
                  then [''High transaction velocity ('' @ fmt_1f lib tph @ ''/hour)'']
                  else []);
            r2 = (if time_span < 24 \<and> tph > 10 then 0.2 else 0);
            f2 = (if time_span < 24 \<and> tph > 10 then [''High activity for new merchant'']
                  else [])
        in
      py_bind (py_div (real_of_int ucs) (real_of_int (total_transactions merchant_data)))
        (\<lambda>cust_txn_ratio.
        let r3 = (if cust_txn_ratio < 0.1 then 0.2 else 0);
            f3 = (if cust_txn_ratio < 0.1 then [''Low customer diversity''] else [])
        in Inr \<lparr>metrics = Some \<lparr>transactions_per_hour = tph, amount_per_hour = aph,
                                 unique_customers_count = ucs,
                                 avg_transaction_amount = avg,
                                 time_span_hours = time_span\<rparr>,
                 risk_contribution = 0 + r1 + r2 + r3,
                 sub_factors = f1 @ f2 @ f3\<rparr>)))))))"

definition analyze_velocity :: "env \<Rightarrow> analyzer \<Rightarrow> string \<Rightarrow> velocity_m sub_analysis" where
  "analyze_velocity lib s merchant_id =
     (case velocity_try lib s merchant_id of Inl e \<Rightarrow> empty_sub | Inr r \<Rightarrow> r)"

subsection \<open>Network anomalies\<close>

definition detect_circular_pattern :: "env \<Rightarrow> analyzer \<Rightarrow> string \<Rightarrow> string \<Rightarrow> bool" where
  "detect_circular_pattern lib s user_id merchant_id =
     (case py_bind (nx_has_path lib (transaction_graph s) merchant_id user_id) (\<lambda>p.
             if p
             then py_bind (nx_shortest_path lib (transaction_graph s) merchant_id user_id)
                    (\<lambda>shortest_path. Inr (length shortest_path \<le> 5))
             else Inr False) of
        Inl e \<Rightarrow> False
      | Inr b \<Rightarrow> b)"

definition detect_burst_pattern :: "analyzer \<Rightarrow> string \<Rightarrow> py_error + bool" where
  "detect_burst_pattern s merchant_id =
     (if \<not> has_node (merchant_graph s) merchant_id then Inr False
      else py_bind (nodes_get (merchant_graph s) merchant_id) (\<lambda>merchant_data.
             Inr (span_hours merchant_data < 1 \<and> total_transactions merchant_data > 20)))"

text \<open>A \<open>for\<close> loop whose body may raise: the first error ends it.\<close>

fun for_each :: "('a \<Rightarrow> 'b \<Rightarrow> py_error + 'b) \<Rightarrow> 'a list \<Rightarrow> 'b \<Rightarrow> py_error + 'b" where
  "for_each f [] acc = Inr acc"
| "for_each f (x # xs) acc = (case f x acc of Inl e \<Rightarrow> Inl e | Inr acc' \<Rightarrow> for_each f xs acc')"

definition detect_merchant_chain :: "analyzer \<Rightarrow> string \<Rightarrow> int" where
  "detect_merchant_chain s merchant_id =
     (let g = merchant_graph s in
      case py_bind (neighbors g merchant_id) (\<lambda>ns.
             for_each (\<lambda>neighbor merchant_neighbors.
                 py_bind (nodes_get g neighbor) (\<lambda>nd.
                   if node_type nd = ''user''
                   then py_bind (neighbors g neighbor) (\<lambda>ms.
                          for_each (\<lambda>merchant_neighbor acc.
                              py_bind (nodes_get g merchant_neighbor) (\<lambda>md.
                                Inr (if node_type md = ''merchant'' \<and> merchant_neighbor \<noteq> merchant_id
                                     then List.insert merchant_neighbor acc else acc)))
                            ms merchant_neighbors)
                   else Inr merchant_neighbors))
               ns []) of
        Inl e \<Rightarrow> 1
      | Inr merchant_neighbors \<Rightarrow> int (length merchant_neighbors) + 1)"

definition is_isolated_cluster :: "env \<Rightarrow> analyzer \<Rightarrow> string \<Rightarrow> bool" where
  "is_isolated_cluster lib s merchant_id =
     (let g = merchant_graph s in
      case py_bind (nx_node_connected_component lib g merchant_id) (\<lambda>component.
             if length component < 10
             then py_bind
                    (for_each (\<lambda>node external_connections.
                         py_bind (neighbors g node) (\<lambda>ns.
                           Inr (external_connections
                                  + int (length (filter (\<lambda>neighbor. neighbor \<notin> set component) ns)))))
                       component 0)
                    (\<lambda>external_connections. Inr (external_connections < 2))
             else Inr False) of
        Inl e \<Rightarrow> False
      | Inr b \<Rightarrow> b)"

text \<open>
  \<open>_detect_network_anomalies\<close>: an error ends the detection and the anomalies found so
  far are returned.
\<close>

definition detect_network_anomalies :: "env \<Rightarrow> analyzer \<Rightarrow> string \<Rightarrow> string option \<Rightarrow> anomaly list" where
  "detect_network_anomalies lib s merchant_id user_id =
     (let a1 = (if (case user_id of
                       None \<Rightarrow> False
                     | Some u \<Rightarrow> u \<noteq> [] \<and> detect_circular_pattern lib s u merchant_id)
                then [\<lparr>anomaly_type = ''circular_transactions'',
                       description = ''Circular transaction pattern detected'',
                       severity = ''high''\<rparr>]
                else [])
      in case detect_burst_pattern s merchant_id of
           Inl e \<Rightarrow> a1
         | Inr burst \<Rightarrow>
            (let a2 = a1 @ (if burst
                            then [\<lparr>anomaly_type = ''transaction_burst'',
                                   description = ''Unusual transaction burst detected'',
                                   severity = ''medium''\<rparr>]
                            else []);
                 chain_length = detect_merchant_chain s merchant_id;
                 a3 = a2 @ (if chain_length > 5
                            then [\<lparr>anomaly_type = ''merchant_chain'',
                                   description = ''Part of '' @ str_int lib chain_length
                                                   @ ''-merchant chain'',
                                   severity = ''medium''\<rparr>]
                            else [])
             in a3 @ (if is_isolated_cluster lib s merchant_id
                      then [\<lparr>anomaly_type = ''isolated_cluster'',
                             description = ''Merchant in isolated network cluster'',
                             severity = ''low''\<rparr>]
                      else [])))"

subsection \<open>The relationship of a user and a merchant\<close>

definition analyze_user_merchant_relationship ::
  "env \<Rightarrow> analyzer \<Rightarrow> string \<Rightarrow> string \<Rightarrow> py_error + relationship_m sub_analysis" where
  "analyze_user_merchant_relationship lib s user_id merchant_id =
     (let g = merchant_graph s in
      if \<not> has_edge g user_id merchant_id
      then Inr \<lparr>metrics = None, risk_contribution = 0.1,
                sub_factors = [''New merchant relationship'']\<rparr>
      else
      py_bind (edges_get g user_id merchant_id) (\<lambda>edge_data.
      py_bind (py_div (total_amount edge_data) (real_of_int (transaction_count edge_data)))
        (\<lambda>avg_amount.
        let r1 = (if transaction_count edge_data > 50 then 0.2 else 0);
            f1 = (if transaction_count edge_data > 50
                  then [''Very frequent transactions ('' @ str_int lib (transaction_count edge_data)
                          @ '')'']
                  else [])
        in
      py_bind (if length (amounts edge_data) > 1
               then py_bind (np_var lib (amounts edge_data)) (\<lambda>amount_variance.
                      Inr (amount_variance > avg_amount * 2))
               else Inr False) (\<lambda>variable.
        let r2 = (if variable then 0.1 else 0);
            f2 = (if variable then [''Highly variable transaction amounts''] else [])
        in Inr \<lparr>metrics = Some \<lparr>rel_transaction_count = transaction_count edge_data,
                                 rel_total_amount = total_amount edge_data,
                                 rel_avg_amount = avg_amount,
                                 relationship_age_days =
                                   td_days (last_transaction edge_data
                                            - first_transaction edge_data)\<rparr>,
                 risk_contribution = 0 + r1 + r2, sub_factors = f1 @ f2\<rparr>))))"

subsection \<open>Recommendations\<close>

text \<open>
  The first recommendation of each tier starts with a pictograph, which the source
  file holds as the bytes given here.
\<close>

definition generate_recommendations :: "risk_analysis \<Rightarrow> string list" where
  "generate_recommendations ra =
     (if risk_score ra > 0.8
      then [[CHR 0xC3, CHR 0xB0, CHR 0xC5, CHR 0xB8, CHR 0xC5, CHR 0xA1, CHR 0xC2, CHR 0xA8]
              @ '' IMMEDIATE REVIEW: High-risk merchant requiring urgent investigation'',
            ''Consider temporary transaction limits'',
            ''Manual review of recent high-value transactions'']
      else if risk_score ra > 0.6
      then [[CHR 0xC3, CHR 0xA2, CHR 0xC5, CHR 0xA1, CHR 0xC2, CHR 0xA0, CHR 0xC3, CHR 0xAF,
             CHR 0xC2, CHR 0xB8] @ '' Enhanced monitoring recommended'',
            ''Review transaction patterns weekly'',
            ''Consider velocity limits'']
      else if risk_score ra > 0.4
      then [[CHR 0xC3, CHR 0xB0, CHR 0xC5, CHR 0xB8, CHR 0xE2, CHR 0x80, CHR 0x9C, CHR 0xC5,
             CHR 0xA0] @ '' Standard monitoring sufficient'',
            ''Include in routine risk reports'']
      else [[CHR 0xC3, CHR 0xA2, CHR 0xC5, CHR 0x93, CHR 0xE2, CHR 0x80, CHR 0xA6]
              @ '' Low risk - standard processing''])
     @ concat (map (\<lambda>factor.
                 if py_in ''High degree centrality'' factor
                 then [''Monitor for potential money laundering hub activity'']
                 else if py_in ''High transaction velocity'' factor
                 then [''Implement velocity-based transaction limits'']
                 else if py_in ''Large tight community'' factor
                 then [''Investigate potential merchant collusion network'']
                 else [])
               (factors ra))"

subsection \<open>The risk analysis\<close>

definition cache_key_of :: "string \<Rightarrow> string option \<Rightarrow> string" where
  "cache_key_of merchant_id user_id =
     ''merchant_risk_'' @ merchant_id @ ''_'' @ py_or user_id ''none''"

text \<open>
  The cache check: the entry under the key is returned when the \<open>seconds\<close> field of its
  age is below the time to live.
\<close>

definition cache_check :: "analyzer \<Rightarrow> string \<Rightarrow> int \<Rightarrow> risk_analysis option" where
  "cache_check s cache_key now =
     (case map_of (risk_cache s) cache_key of
        None \<Rightarrow> None
      | Some (cached_result, timestamp) \<Rightarrow>
          if td_seconds (now - timestamp) < cache_ttl s then Some cached_result else None)"

definition unknown_merchant :: "string \<Rightarrow> risk_analysis" where
  "unknown_merchant merchant_id =
     \<lparr>res_merchant_id = merchant_id, risk_score = 0.1, factors = [''Unknown merchant''],
      centrality_metrics = None, clustering_metrics = None, velocity_metrics = None,
      network_anomalies = [], recommendations = [], error = None\<rparr>"

definition analysis_error :: "string \<Rightarrow> py_error \<Rightarrow> risk_analysis" where
  "analysis_error merchant_id e =
     \<lparr>res_merchant_id = merchant_id, risk_score = 0.5, factors = [''Analysis error''],
      centrality_metrics = None, clustering_metrics = None, velocity_metrics = None,
      network_anomalies = [], recommendations = [], error = Some (py_str e)\<rparr>"

text \<open>
  The body of the \<open>try\<close> of \<open>analyze_merchant_risk\<close>; \<open>now2\<close> is the clock when the
  result is cached.
\<close>

definition analyze_try ::
  "env \<Rightarrow> analyzer \<Rightarrow> string \<Rightarrow> string option \<Rightarrow> int \<Rightarrow> py_error + risk_analysis \<times> analyzer" where
  "analyze_try lib s merchant_id user_id now2 =
     (if \<not> has_node (merchant_graph s) merchant_id then Inr (unknown_merchant merchant_id, s)
      else
      py_bind (nodes_get (merchant_graph s) merchant_id) (\<lambda>merchant_data.
        let centrality_risk = analyze_centrality lib s merchant_id;
            clustering_risk = analyze_clustering lib s merchant_id;
            velocity_risk = analyze_velocity lib s merchant_id;
            anomalies = detect_network_anomalies lib s merchant_id user_id;
            score = 0 + risk_contribution centrality_risk + risk_contribution clustering_risk
                      + risk_contribution velocity_risk + real (length anomalies) * 0.1;
            fs = sub_factors centrality_risk @ sub_factors clustering_risk
                   @ sub_factors velocity_risk
        in
      py_bind (case user_id of
                 None \<Rightarrow> Inr (score, fs)
               | Some u \<Rightarrow>
                   if u = [] then Inr (score, fs)
                   else py_bind (analyze_user_merchant_relationship lib s u merchant_id)
                          (\<lambda>relationship_risk.
                             Inr (score + risk_contribution relationship_risk,
                                  fs @ sub_factors relationship_risk)))
        (\<lambda>(score', fs').
        let ra = \<lparr>res_merchant_id = merchant_id,
                  risk_score = min 1 (max 0 score'),
                  factors = fs',
                  centrality_metrics = Some centrality_risk,
                  clustering_metrics = Some clustering_risk,
                  velocity_metrics = Some velocity_risk,
                  network_anomalies = anomalies,
                  recommendations = [],
                  error = None\<rparr>;
            risk_analysis = ra\<lparr>recommendations := generate_recommendations ra\<rparr>
        in Inr (risk_analysis,
                s\<lparr>risk_cache := AList.update (cache_key_of merchant_id user_id)
                                   (risk_analysis, now2) (risk_cache s)\<rparr>))))"

text \<open>
  \<open>analyze_merchant_risk\<close>; \<open>now\<close> is the clock at the cache check. It returns the result
  and the analyzer with its cache.
\<close>

definition analyze_merchant_risk ::
  "env \<Rightarrow> analyzer \<Rightarrow> string \<Rightarrow> string option \<Rightarrow> int \<Rightarrow> int \<Rightarrow> risk_analysis \<times> analyzer" where
  "analyze_merchant_risk lib s merchant_id user_id now now2 =
     (case cache_check s (cache_key_of merchant_id user_id) now of
        Some cached_result \<Rightarrow> (cached_result, s)
      | None \<Rightarrow>
          (case analyze_try lib s merchant_id user_id now2 of
             Inl e \<Rightarrow> (analysis_error merchant_id e, s)
           | Inr r \<Rightarrow> r))"

subsection \<open>Reachable analyzers\<close>

text \<open>
  The analyzers that the two operations produce from a new one, whatever the libraries
  answer and whether a call returns or raises.
\<close>

inductive reachable :: "analyzer \<Rightarrow> bool" where
  reachable_init: "reachable init"
| reachable_add:
    "reachable s \<Longrightarrow>
     reachable (snd (add_transaction_edge s user_id merchant_id amount timestamp metadata))"
| reachable_analyze:
    "reachable s \<Longrightarrow>
     reachable (snd (analyze_merchant_risk lib s merchant_id user_id now now2))"

subsection \<open>Sequences of calls\<close>

text \<open>
  Calls of \<open>add_transaction_edge\<close> for one user and one merchant, one after the other,
  with the amount, the time stamp and the metadata of each; a call that raises ends the
  sequence, as the exception would.
\<close>

fun record_all ::
  "analyzer \<Rightarrow> string \<Rightarrow> string \<Rightarrow> (real \<times> int \<times> (string \<times> string) list option) list
     \<Rightarrow> (py_error + unit) \<times> analyzer" where
  "record_all s user_id merchant_id [] = (Inr (), s)"
| "record_all s user_id merchant_id ((amount, timestamp, metadata) # txs) =
     (case add_transaction_edge s user_id merchant_id amount timestamp metadata of
        (Inl e, s') \<Rightarrow> (Inl e, s')
      | (Inr u, s') \<Rightarrow> record_all s' user_id merchant_id txs)"

section \<open>Concrete runs\<close>

text \<open>
  An environment to run the analyzer on small graphs. The degree centrality is that of
  the graph; the betweenness centrality, called with \<open>k = 100\<close>, raises on a graph of
  fewer than \<open>k\<close> nodes, where the sample of pivots is larger than the population; the
  graph counts as one component without triangles, the flow graph as without a path
  from a merchant back to a user; numbers are printed as marks.
\<close>

definition population_variance :: "real list \<Rightarrow> real" where
  "population_variance xs =
     (let mean = sum_list xs / real (length xs)
      in sum_list (map (\<lambda>x. (x - mean) * (x - mean)) xs) / real (length xs))"

definition sample_env :: env where
  "sample_env =
     \<lparr>nx_degree_centrality = (\<lambda>g. Inr (\<lambda>n.
          case neighbors g n of
            Inl e \<Rightarrow> None
          | Inr ns \<Rightarrow> Some (real (length ns) / (real (length (nodes g)) - 1)))),
      nx_betweenness_centrality = (\<lambda>g k.
          if k > length (nodes g)
          then Inl (LibraryError ''Sample larger than population or is negative'')
          else Inr (\<lambda>n. if has_node g n then Some 0 else None)),
      nx_is_connected = (\<lambda>g. Inr True),
      nx_closeness_centrality = (\<lambda>g. Inr (\<lambda>n. None)),
      nx_clustering = (\<lambda>g n. Inr 0),
      nx_average_clustering = (\<lambda>g. Inr 0),
      nx_connected_components = (\<lambda>g. Inr [map fst (nodes g)]),
      nx_node_connected_component = (\<lambda>g n. Inr (map fst (nodes g))),
      nx_has_path = (\<lambda>dg a b. Inr False),
      nx_shortest_path = (\<lambda>dg a b. Inl (LibraryError ''No path'')),
      np_var = (\<lambda>xs. Inr (population_variance xs)),
      fmt_3f = (\<lambda>x. ''#.###''),
      fmt_1f = (\<lambda>x. ''#.#''),
      str_int = (\<lambda>i. ''#'')\<rparr>"

text \<open>
  A first transaction of user \<open>U1\<close> with merchant \<open>M1\<close>, then an analysis of \<open>M1\<close>, which
  is cached, then a transaction of a second user with \<open>M1\<close> a minute later.
\<close>

definition w1 :: analyzer where
  "w1 = snd (add_transaction_edge init ''U1'' ''M1'' 10 0 None)"

definition w2 :: analyzer where
  "w2 = snd (analyze_merchant_risk sample_env w1 ''M1'' None 0 0)"

definition w3 :: analyzer where
  "w3 = snd (add_transaction_edge w2 ''U2'' ''M1'' 5 60000000 None)"

text \<open>
  After the cached analysis of \<open>M1\<close>, a transaction between another user and another
  merchant, which leaves the cache entry of \<open>M1\<close> in place.
\<close>

definition w9 :: analyzer where
  "w9 = snd (add_transaction_edge w2 ''U7'' ''M9'' 3 60000000 None)"

text \<open>
  After the cached analysis of \<open>M1\<close>, a transaction in which \<open>M1\<close> is the user and a new
  \<open>M2\<close> the merchant.
\<close>

definition w4 :: analyzer where
  "w4 = snd (add_transaction_edge w2 ''M1'' ''M2'' 5 60000000 None)"

text \<open>An analysis of \<open>M1\<close> in the context of a user named \<open>X_none\<close>.\<close>

definition w5 :: analyzer where
  "w5 = snd (analyze_merchant_risk sample_env w1 ''M1'' (Some ''X_none'') 0 0)"

text \<open>Two transactions of \<open>U1\<close> with \<open>M1\<close>, the later one recorded first.\<close>

definition w7 :: analyzer where
  "w7 = snd (add_transaction_edge
               (snd (add_transaction_edge init ''U1'' ''M1'' 10 7200000000 None))
               ''U1'' ''M1'' 10 0 None)"

text \<open>
  Two transactions of \<open>U1\<close> with \<open>M1\<close> half an hour apart, and the node of \<open>M1\<close> after
  them.
\<close>

definition w8 :: analyzer where
  "w8 = snd (add_transaction_edge w1 ''U1'' ''M1'' 10 1800000000 None)"

definition m8 :: node_data where
  "m8 = \<lparr>node_type = ''merchant'', total_transactions = 2, node_total_amount = 20,
         unique_customers = Some {''U1''}, unique_merchants = None,
         first_seen = 0, last_seen = 1800000000\<rparr>"

text \<open>
  A merchant \<open>M2\<close> with a customer, then the first transaction of a new user \<open>U9\<close> with
  \<open>M2\<close> a minute later.
\<close>

definition c0 :: analyzer where
  "c0 = snd (add_transaction_edge init ''U1'' ''M2'' 20 0 None)"

definition c1 :: analyzer where
  "c1 = snd (add_transaction_edge c0 ''U9'' ''M2'' 15 60000000 None)"

text \<open>After \<open>w1\<close>, two transactions of a new user \<open>U3\<close> with \<open>M1\<close>.\<close>

definition w6 :: analyzer where
  "w6 = snd (record_all w1 ''U3'' ''M1'' [(5, 600000000, None), (7, 1200000000, None)])"

text \<open>The same environment with a variance that raises.\<close>

definition var_env :: env where
  "var_env = sample_env\<lparr>np_var := (\<lambda>xs. Inl (LibraryError ''unsupported operand''))\<rparr>"

section \<open>The velocity as the specification words it\<close>

text \<open>
  The specification divides the number of transactions by the time span floored at one
  hour; \<open>velocity_try\<close> above is the source.
\<close>

definition spec_transactions_per_hour :: "node_data \<Rightarrow> real" where
  "spec_transactions_per_hour d = real_of_int (total_transactions d) / max (span_hours d) 1"

section \<open>Views of the operations\<close>

text \<open>The statements of \<open>add_transaction_edge\<close> by name, for the proofs.\<close>

definition merchant_node :: "int \<Rightarrow> node_data" where
  "merchant_node timestamp =
     \<lparr>node_type = ''merchant'', total_transactions = 0, node_total_amount = 0,
      unique_customers = Some {}, unique_merchants = None,
      first_seen = timestamp, last_seen = timestamp\<rparr>"

definition user_node :: "int \<Rightarrow> node_data" where
  "user_node timestamp =
     \<lparr>node_type = ''user'', total_transactions = 0, node_total_amount = 0,
      unique_customers = None, unique_merchants = Some {},
      first_seen = timestamp, last_seen = timestamp\<rparr>"

definition ensure_nodes :: "graph \<Rightarrow> string \<Rightarrow> string \<Rightarrow> int \<Rightarrow> graph" where
  "ensure_nodes g user_id merchant_id timestamp =
     (let g1 = (if \<not> has_node g merchant_id
                then add_node g merchant_id (merchant_node timestamp) else g)
      in if \<not> has_node g1 user_id then add_node g1 user_id (user_node timestamp) else g1)"

definition count_txn :: "real \<Rightarrow> node_data \<Rightarrow> node_data" where
  "count_txn amount d =
     d\<lparr>total_transactions := total_transactions d + 1,
       node_total_amount := float_add (node_total_amount d) amount\<rparr>"

definition customers_of :: "graph \<Rightarrow> string \<Rightarrow> py_error + string set" where
  "customers_of g merchant_id =
     py_bind (nodes_get g merchant_id) (\<lambda>d.
       case unique_customers d of
         None \<Rightarrow> Inl (KeyError ''unique_customers'')
       | Some cs \<Rightarrow> Inr cs)"

definition merchants_of :: "graph \<Rightarrow> string \<Rightarrow> py_error + string set" where
  "merchants_of g user_id =
     py_bind (nodes_get g user_id) (\<lambda>d.
       case unique_merchants d of
         None \<Rightarrow> Inl (KeyError ''unique_merchants'')
       | Some ms \<Rightarrow> Inr ms)"

definition seen_by :: "string \<Rightarrow> string set \<Rightarrow> int \<Rightarrow> node_data \<Rightarrow> node_data" where
  "seen_by user_id cs timestamp d =
     d\<lparr>unique_customers := Some (insert user_id cs),
       last_seen := max (last_seen d) timestamp\<rparr>"

definition seen_at :: "string \<Rightarrow> string set \<Rightarrow> int \<Rightarrow> node_data \<Rightarrow> node_data" where
  "seen_at merchant_id ms timestamp d =
     d\<lparr>unique_merchants := Some (insert merchant_id ms),
       last_seen := max (last_seen d) timestamp\<rparr>"

definition grow_edge :: "real \<Rightarrow> int \<Rightarrow> edge_data \<Rightarrow> edge_data" where
  "grow_edge amount timestamp e =
     e\<lparr>transaction_count := transaction_count e + 1,
       total_amount := float_add (total_amount e) amount,
       last_transaction := timestamp,
       amounts := amounts e @ [amount]\<rparr>"

definition new_edge :: "real \<Rightarrow> int \<Rightarrow> edge_data" where
  "new_edge amount timestamp =
     \<lparr>transaction_count = 1, total_amount = amount, first_transaction = timestamp,
      last_transaction = timestamp, amounts = [amount]\<rparr>"

definition put_edge :: "graph \<Rightarrow> string \<Rightarrow> string \<Rightarrow> real \<Rightarrow> int \<Rightarrow> graph" where
  "put_edge g user_id merchant_id amount timestamp =
     (if has_edge g user_id merchant_id
      then set_edge g user_id merchant_id (grow_edge amount timestamp)
      else add_edge g user_id merchant_id (new_edge amount timestamp))"

definition put_arc ::
  "digraph \<Rightarrow> string \<Rightarrow> string \<Rightarrow> real \<Rightarrow> int \<Rightarrow> (string \<times> string) list option \<Rightarrow> digraph" where
  "put_arc dg user_id merchant_id amount timestamp metadata =
     d_add_edge dg user_id merchant_id
       \<lparr>arc_amount = amount, arc_timestamp = timestamp,
        arc_metadata = (case metadata of None \<Rightarrow> [] | Some md \<Rightarrow> md)\<rparr>"

text \<open>
  The attributes of the edge between two nodes, if there is one, and the attributes
  after one more transaction.
\<close>

definition edge_of :: "graph \<Rightarrow> string \<Rightarrow> string \<Rightarrow> edge_data option" where
  "edge_of g u v = (case edge_key g u v of None \<Rightarrow> None | Some k \<Rightarrow> map_of (edges g) k)"

definition step_edge :: "edge_data option \<Rightarrow> real \<Rightarrow> int \<Rightarrow> edge_data" where
  "step_edge eo amount timestamp =
     (case eo of None \<Rightarrow> new_edge amount timestamp | Some e \<Rightarrow> grow_edge amount timestamp e)"

text \<open>
  The sum of a list of floats as the source accumulates it on an edge: the first amount
  as it is, each further one added to the total so far, from left to right.
\<close>

fun float_sum :: "real list \<Rightarrow> real" where
  "float_sum [] = 0"
| "float_sum (a # as) = foldl float_add a as"

text \<open>The total and the count of an edge agree with its list of amounts.\<close>

definition edge_ok :: "edge_data \<Rightarrow> bool" where
  "edge_ok e = (amounts e \<noteq> [] \<and> total_amount e = float_sum (amounts e)
                \<and> transaction_count e = int (length (amounts e)))"

text \<open>
  The identities fit the roles of the nodes they have, if any: the merchant identity is
  not a user node, the user identity is not a merchant node, and they differ.
\<close>

definition roles_fit :: "graph \<Rightarrow> string \<Rightarrow> string \<Rightarrow> bool" where
  "roles_fit g user_id merchant_id =
     (user_id \<noteq> merchant_id
      \<and> (case map_of (nodes g) merchant_id of None \<Rightarrow> True | Some d \<Rightarrow> unique_customers d \<noteq> None)
      \<and> (case map_of (nodes g) user_id of None \<Rightarrow> True | Some d \<Rightarrow> unique_merchants d \<noteq> None))"

text \<open>
  Two parts of the \<open>try\<close> of \<open>analyze_merchant_risk\<close> by name: the score and the factors
  before the score is clamped, and the dictionary built from them.
\<close>

definition pre_clamp ::
  "env \<Rightarrow> analyzer \<Rightarrow> string \<Rightarrow> string option \<Rightarrow> py_error + real \<times> string list" where
  "pre_clamp lib s merchant_id user_id =
     (let score = 0 + risk_contribution (analyze_centrality lib s merchant_id)
                    + risk_contribution (analyze_clustering lib s merchant_id)
                    + risk_contribution (analyze_velocity lib s merchant_id)
                    + real (length (detect_network_anomalies lib s merchant_id user_id)) * 0.1;
          fs = sub_factors (analyze_centrality lib s merchant_id)
                 @ sub_factors (analyze_clustering lib s merchant_id)
                 @ sub_factors (analyze_velocity lib s merchant_id)
      in case user_id of
           None \<Rightarrow> Inr (score, fs)
         | Some u \<Rightarrow>
             if u = [] then Inr (score, fs)
             else py_bind (analyze_user_merchant_relationship lib s u merchant_id)
                    (\<lambda>relationship_risk.
                       Inr (score + risk_contribution relationship_risk,
                            fs @ sub_factors relationship_risk)))"

definition assemble ::
  "env \<Rightarrow> analyzer \<Rightarrow> string \<Rightarrow> string option \<Rightarrow> real \<Rightarrow> string list \<Rightarrow> risk_analysis" where
  "assemble lib s merchant_id user_id score fs =
     (let ra = \<lparr>res_merchant_id = merchant_id,
                risk_score = min 1 (max 0 score),
                factors = fs,
                centrality_metrics = Some (analyze_centrality lib s merchant_id),
                clustering_metrics = Some (analyze_clustering lib s merchant_id),
                velocity_metrics = Some (analyze_velocity lib s merchant_id),
                network_anomalies = detect_network_anomalies lib s merchant_id user_id,
                recommendations = [],
                error = None\<rparr>
      in ra\<lparr>recommendations := generate_recommendations ra\<rparr>)"

section \<open>Properties\<close>

declare bit_length.simps [simp del]

lemmas graph_defs = has_node_def nodes_get_def add_node_def set_node_def edge_key_def has_edge_def
  edges_get_def add_edge_def set_edge_def neighbors_def d_add_edge_def

lemmas float_defs = float_add_def to_double_def round_half_even_def binary_exponent_def pow2_def
  bit_length.simps

lemmas record_defs = add_transaction_edge_def invalidate_cache_def py_bind_def Let_def init_def
  float_defs

lemmas analysis_defs = analyze_merchant_risk_def analyze_try_def cache_check_def cache_key_of_def
  analyze_centrality_def centrality_try_def analyze_clustering_def clustering_try_def
  analyze_velocity_def velocity_try_def span_hours_def total_seconds_def td_seconds_def td_days_def
  py_div_def dict_get_def empty_sub_def detect_network_anomalies_def detect_circular_pattern_def
  detect_burst_pattern_def detect_merchant_chain_def is_isolated_cluster_def
  analyze_user_merchant_relationship_def generate_recommendations_def unknown_merchant_def
  analysis_error_def

lemmas eval_defs = analysis_defs graph_defs sample_env_def py_bind_def Let_def

subsection \<open>Rounded sums\<close>

lemma float_add_examples:
  "float_add 10 5 = 15"
  "float_add (1 / 4) (1 / 8) = 3 / 8"
  "float_add 9007199254740992 1 = 9007199254740992"
  "float_add 10000000000000000 1 = 10000000000000000"
  "float_add 10000000000000000 3 = 10000000000000004"
  by (simp_all add: float_defs)

subsection \<open>The stages of a recording\<close>

lemma add_transaction_edge_unfold:
  "add_transaction_edge s user_id merchant_id amount timestamp metadata =
     (let g3 = set_node (ensure_nodes (merchant_graph s) user_id merchant_id timestamp)
                 merchant_id (count_txn amount)
      in case customers_of g3 merchant_id of
           Inl e \<Rightarrow> (Inl e, s\<lparr>merchant_graph := g3\<rparr>)
         | Inr cs \<Rightarrow>
            (let g5 = set_node (set_node g3 merchant_id (seen_by user_id cs timestamp))
                        user_id (count_txn amount)
             in case merchants_of g5 user_id of
                  Inl e \<Rightarrow> (Inl e, s\<lparr>merchant_graph := g5\<rparr>)
                | Inr ms \<Rightarrow>
                    (Inr (),
                     invalidate_cache
                       (s\<lparr>merchant_graph :=
                            put_edge (set_node g5 user_id (seen_at merchant_id ms timestamp))
                              user_id merchant_id amount timestamp,
                          transaction_graph :=
                            put_arc (transaction_graph s) user_id merchant_id amount timestamp
                              metadata\<rparr>)
                       merchant_id user_id)))"
  unfolding add_transaction_edge_def ensure_nodes_def merchant_node_def user_node_def
    count_txn_def customers_of_def merchants_of_def seen_by_def seen_at_def grow_edge_def
    new_edge_def put_edge_def put_arc_def Let_def ..

subsection \<open>The concrete runs\<close>

lemma w1_val:
  "w1 = \<lparr>merchant_graph =
          \<lparr>nodes =
             [(''M1'', \<lparr>node_type = ''merchant'', total_transactions = 1,
                       node_total_amount = 10, unique_customers = Some {''U1''},
                       unique_merchants = None, first_seen = 0, last_seen = 0\<rparr>),
              (''U1'', \<lparr>node_type = ''user'', total_transactions = 1,
                       node_total_amount = 10, unique_customers = None,
                       unique_merchants = Some {''M1''}, first_seen = 0, last_seen = 0\<rparr>)],
           edges =
             [((''U1'', ''M1''), \<lparr>transaction_count = 1, total_amount = 10,
                                 first_transaction = 0, last_transaction = 0,
                                 amounts = [10]\<rparr>)]\<rparr>,
         transaction_graph =
          \<lparr>d_nodes = [''U1'', ''M1''],
           d_edges = [((''U1'', ''M1''),
                       \<lparr>arc_amount = 10, arc_timestamp = 0, arc_metadata = []\<rparr>)]\<rparr>,
         risk_cache = [], cache_ttl = 3600, high_centrality_threshold = 4 / 5,
         suspicious_clustering_threshold = 9 / 10, velocity_threshold = 100\<rparr>"
  by (simp add: w1_def record_defs graph_defs)

lemma w2_cache: "map fst (risk_cache w2) = [''merchant_risk_M1_none'']"
  by (simp add: w2_def w1_val analysis_defs graph_defs sample_env_def py_bind_def Let_def)

lemma w3_ret: "add_transaction_edge w2 ''U2'' ''M1'' 5 60000000 None = (Inr (), w3)"
  unfolding w3_def
  by (rule prod_eqI) (simp_all add: w2_def w1_val analysis_defs graph_defs sample_env_def record_defs)

subsection \<open>Substrings\<close>

lemma starts_with_iff: "starts_with xs ys \<longleftrightarrow> (\<exists>ss. ys = xs @ ss)"
  by (induction xs ys rule: starts_with.induct) auto

lemma py_in_iff: "py_in xs ys \<longleftrightarrow> (\<exists>ps ss. ys = ps @ xs @ ss)"
proof (induction ys)
  case Nil
  then show ?case by auto
next
  case (Cons y ys)
  show ?case
  proof
    assume "py_in xs (y # ys)"
    then consider "starts_with xs (y # ys)" | "py_in xs ys" by auto
    then show "\<exists>ps ss. y # ys = ps @ xs @ ss"
    proof cases
      case 1
      then obtain ss where "y # ys = xs @ ss" by (auto simp: starts_with_iff)
      then have "y # ys = [] @ xs @ ss" by simp
      then show ?thesis by blast
    next
      case 2
      then obtain ps ss where "ys = ps @ xs @ ss" using Cons.IH by auto
      then have "y # ys = (y # ps) @ xs @ ss" by simp
      then show ?thesis by blast
    qed
  next
    assume "\<exists>ps ss. y # ys = ps @ xs @ ss"
    then obtain ps ss where eq: "y # ys = ps @ xs @ ss" by auto
    show "py_in xs (y # ys)"
    proof (cases ps)
      case Nil
      then have "starts_with xs (y # ys)" using eq by (auto simp: starts_with_iff)
      then show ?thesis by simp
    next
      case (Cons p ps')
      then have "ys = ps' @ xs @ ss" using eq by simp
      then have "py_in xs ys" using Cons.IH by blast
      then show ?thesis by simp
    qed
  qed
qed

subsection \<open>Cache invalidation\<close>

lemma fold_delete_keys: "fst ` set (fold AList.delete ks al) = fst ` set al - set ks"
proof (induction ks arbitrary: al)
  case Nil
  then show ?case by simp
next
  case (Cons k ks)
  have "fst ` set (AList.delete k al) = fst ` set al - {k}"
    by (auto simp: AList.delete_eq image_iff)
  then show ?case using Cons.IH [of "AList.delete k al"] by auto
qed

lemma invalidate_cache_keys:
  assumes "(key, v) \<in> set (risk_cache (invalidate_cache s merchant_id user_id))"
  shows "\<not> py_in merchant_id key \<and> \<not> py_in user_id key"
proof -
  let ?ks = "filter (\<lambda>key. py_in merchant_id key \<or> py_in user_id key) (map fst (risk_cache s))"
  have "key \<in> fst ` set (fold AList.delete ?ks (risk_cache s))"
    using assms by (force simp: invalidate_cache_def Let_def)
  then have "key \<in> fst ` set (risk_cache s) - set ?ks"
    by (simp only: fold_delete_keys)
  then show ?thesis by auto
qed

lemma add_transaction_edge_returns:
  assumes "add_transaction_edge s user_id merchant_id amount timestamp metadata = (Inr (), s')"
  shows "\<exists>s''. s' = invalidate_cache s'' merchant_id user_id"
  using assms unfolding add_transaction_edge_unfold Let_def
  by (auto split: sum.splits)

lemma invalidated_lookup:
  assumes "add_transaction_edge s user_id merchant_id amount timestamp metadata = (Inr (), s')"
    and "py_in merchant_id key \<or> py_in user_id key"
  shows "map_of (risk_cache s') key = None"
proof (rule ccontr)
  obtain s'' where s': "s' = invalidate_cache s'' merchant_id user_id"
    using add_transaction_edge_returns [OF assms(1)] by blast
  assume "map_of (risk_cache s') key \<noteq> None"
  then obtain v where "map_of (risk_cache s') key = Some v" by auto
  then have "(key, v) \<in> set (risk_cache s')" by (rule map_of_SomeD)
  then show False using invalidate_cache_keys [of key v s'' merchant_id user_id] s' assms(2)
    by simp
qed

lemma py_in_cache_key_merchant: "py_in merchant_id (cache_key_of merchant_id u)"
  unfolding py_in_iff cache_key_of_def by blast

lemma py_in_cache_key_user: "py_in user_id (cache_key_of m (Some user_id))"
proof (cases "user_id = []")
  case True
  have "cache_key_of m (Some user_id) = [] @ user_id @ cache_key_of m (Some user_id)"
    using True by simp
  then show ?thesis unfolding py_in_iff by blast
next
  case False
  have "cache_key_of m (Some user_id) = (''merchant_risk_'' @ m @ ''_'') @ user_id @ []"
    using False by (simp add: cache_key_of_def)
  then show ?thesis unfolding py_in_iff by blast
qed

text \<open>
  When \<open>add_transaction_edge\<close> returns, no key of the cache contains the merchant
  identity or the user identity as a substring; in particular the cache has no entry
  for an analysis of this merchant, with any user, nor for an analysis of any merchant
  with this user.
\<close>

lemma returning_record_invalidates_cache:
  assumes "add_transaction_edge s user_id merchant_id amount timestamp metadata = (Inr (), s')"
  shows "(\<forall>key \<in> fst ` set (risk_cache s').
            \<not> (\<exists>ps ss. key = ps @ merchant_id @ ss) \<and> \<not> (\<exists>ps ss. key = ps @ user_id @ ss))
         \<and> (\<forall>u now. cache_check s' (cache_key_of merchant_id u) now = None)
         \<and> (\<forall>m now. cache_check s' (cache_key_of m (Some user_id)) now = None)"
proof (intro conjI ballI allI)
  fix key assume "key \<in> fst ` set (risk_cache s')"
  then obtain v where "(key, v) \<in> set (risk_cache s')" by auto
  moreover obtain s'' where "s' = invalidate_cache s'' merchant_id user_id"
    using add_transaction_edge_returns [OF assms] by blast
  ultimately have "\<not> py_in merchant_id key \<and> \<not> py_in user_id key"
    using invalidate_cache_keys by blast
  then show "\<not> (\<exists>ps ss. key = ps @ merchant_id @ ss)" "\<not> (\<exists>ps ss. key = ps @ user_id @ ss)"
    using py_in_iff by blast+
next
  fix u now
  show "cache_check s' (cache_key_of merchant_id u) now = None"
    using invalidated_lookup [OF assms] py_in_cache_key_merchant by (simp add: cache_check_def)
next
  fix m now
  show "cache_check s' (cache_key_of m (Some user_id)) now = None"
    using invalidated_lookup [OF assms] py_in_cache_key_user by (simp add: cache_check_def)
qed

lemma returning_record_invalidates_cache_example:
  "add_transaction_edge w2 ''U2'' ''M1'' 5 60000000 None = (Inr (), w3)
   \<and> map fst (risk_cache w2) = [''merchant_risk_M1_none'']
   \<and> cache_check w3 (cache_key_of ''M1'' None) 60000000 = None
   \<and> cache_check w3 (cache_key_of ''M1'' (Some ''U2'')) 60000000 = None"
  using returning_record_invalidates_cache [OF w3_ret] w3_ret w2_cache by simp

text \<open>A call that raises stops before the invalidation and leaves the cache as it was.\<close>

lemma raising_record_keeps_cache:
  assumes "fst (add_transaction_edge s user_id merchant_id amount timestamp metadata) = Inl e"
  shows "risk_cache (snd (add_transaction_edge s user_id merchant_id amount timestamp metadata))
           = risk_cache s"
  using assms unfolding add_transaction_edge_unfold Let_def
  by (auto split: sum.splits)

text \<open>
  Claim C4, at a failing input. The analysis of \<open>M1\<close> is cached; then a transaction is
  recorded with \<open>M1\<close> as the user. The node of \<open>M1\<close> is a merchant node: its count and
  its total are increased, then reading its \<open>unique_merchants\<close> raises, and the
  invalidation at the end of the function is not reached. The entry of \<open>M1\<close> is still
  in the cache and is served, while a new computation on the graph as it is gives
  another result.
\<close>

theorem raising_record_keeps_entry:
  "fst (add_transaction_edge w2 ''M1'' ''M2'' 5 60000000 None) = Inl (KeyError ''unique_merchants'')
   \<and> map (\<lambda>(n, d). (n, total_transactions d, node_total_amount d)) (nodes (merchant_graph w2))
       = [(''M1'', 1, 10), (''U1'', 1, 10)]
   \<and> map (\<lambda>(n, d). (n, total_transactions d, node_total_amount d)) (nodes (merchant_graph w4))
       = [(''M1'', 2, 15), (''U1'', 1, 10), (''M2'', 1, 5)]
   \<and> map fst (risk_cache w4) = [cache_key_of ''M1'' None]
   \<and> py_in ''M1'' (cache_key_of ''M1'' None)
   \<and> analyze_merchant_risk sample_env w4 ''M1'' None 60000000 60000000
       = (fst (analyze_merchant_risk sample_env w1 ''M1'' None 0 0), w4)
   \<and> fst (analyze_merchant_risk sample_env (w4\<lparr>risk_cache := []\<rparr>) ''M1'' None
            60000000 60000000)
       \<noteq> fst (analyze_merchant_risk sample_env w1 ''M1'' None 0 0)"
  by (simp add: w4_def w2_def w1_val analysis_defs graph_defs sample_env_def record_defs)

subsection \<open>The shape of an analysis\<close>

lemma analyze_try_unfold:
  "analyze_try lib s merchant_id user_id now2 =
     (if \<not> has_node (merchant_graph s) merchant_id then Inr (unknown_merchant merchant_id, s)
      else py_bind (nodes_get (merchant_graph s) merchant_id) (\<lambda>merchant_data.
           py_bind (pre_clamp lib s merchant_id user_id) (\<lambda>(score, fs).
             Inr (assemble lib s merchant_id user_id score fs,
                  s\<lparr>risk_cache := AList.update (cache_key_of merchant_id user_id)
                       (assemble lib s merchant_id user_id score fs, now2) (risk_cache s)\<rparr>))))"
  unfolding analyze_try_def pre_clamp_def assemble_def Let_def ..

lemma assemble_simps [simp]:
  "risk_score (assemble lib s merchant_id user_id score fs) = min 1 (max 0 score)"
  "factors (assemble lib s merchant_id user_id score fs) = fs"
  by (simp_all add: assemble_def Let_def)

lemma analyze_try_result:
  assumes "analyze_try lib s merchant_id user_id now2 = Inr (r, s')"
  shows "(r = unknown_merchant merchant_id \<and> s' = s)
         \<or> (0 \<le> risk_score r \<and> risk_score r \<le> 1
            \<and> s' = s\<lparr>risk_cache := AList.update (cache_key_of merchant_id user_id) (r, now2)
                                      (risk_cache s)\<rparr>)"
  using assms unfolding analyze_try_unfold py_bind_def
  by (auto split: if_splits sum.splits prod.splits)

subsection \<open>The cached scores\<close>

lemma set_fold_delete: "set (fold AList.delete ks al) \<subseteq> set al"
proof (induction ks arbitrary: al)
  case Nil
  then show ?case by simp
next
  case (Cons k ks)
  have "set (AList.delete k al) \<subseteq> set al" by (auto simp: AList.delete_eq)
  then show ?case using Cons.IH [of "AList.delete k al"] by auto
qed

lemma set_update_subset: "set (AList.update k v al) \<subseteq> insert (k, v) (set al)"
  by (induction al) auto

lemma add_transaction_edge_cache:
  "set (risk_cache (snd (add_transaction_edge s user_id merchant_id amount timestamp metadata)))
     \<subseteq> set (risk_cache s)"
  unfolding add_transaction_edge_unfold Let_def invalidate_cache_def
  using set_fold_delete by (auto split: sum.splits)

lemma analyze_merchant_risk_cache:
  assumes "(k, r, t) \<in> set (risk_cache (snd (analyze_merchant_risk lib s merchant_id user_id now now2)))"
  shows "(k, r, t) \<in> set (risk_cache s) \<or> (0 \<le> risk_score r \<and> risk_score r \<le> 1)"
proof (cases "cache_check s (cache_key_of merchant_id user_id) now")
  case (Some c)
  then show ?thesis using assms by (simp add: analyze_merchant_risk_def)
next
  case None
  show ?thesis
  proof (cases "analyze_try lib s merchant_id user_id now2")
    case (Inl e)
    then show ?thesis using assms None by (simp add: analyze_merchant_risk_def)
  next
    case (Inr p)
    obtain r' s' where p: "p = (r', s')" by (cases p)
    from analyze_try_result [OF Inr [unfolded p]] show ?thesis
    proof
      assume "r' = unknown_merchant merchant_id \<and> s' = s"
      then show ?thesis using assms None Inr p by (simp add: analyze_merchant_risk_def)
    next
      assume a: "0 \<le> risk_score r' \<and> risk_score r' \<le> 1
            \<and> s' = s\<lparr>risk_cache := AList.update (cache_key_of merchant_id user_id) (r', now2)
                                      (risk_cache s)\<rparr>"
      then have "(k, r, t) \<in> set (AList.update (cache_key_of merchant_id user_id) (r', now2)
                                   (risk_cache s))"
        using assms None Inr p by (simp add: analyze_merchant_risk_def)
      then have "(k, r, t) = (cache_key_of merchant_id user_id, r', now2)
                 \<or> (k, r, t) \<in> set (risk_cache s)"
        using set_update_subset by fastforce
      then show ?thesis using a by auto
    qed
  qed
qed

lemma reachable_cache_bounds:
  assumes "reachable s" and "(k, r, t) \<in> set (risk_cache s)"
  shows "0 \<le> risk_score r \<and> risk_score r \<le> 1"
  using assms
proof (induction arbitrary: k r t rule: reachable.induct)
  case reachable_init
  then show ?case by (simp add: init_def)
next
  case (reachable_add s user_id merchant_id amount timestamp metadata)
  then show ?case using add_transaction_edge_cache by blast
next
  case (reachable_analyze s lib merchant_id user_id now now2)
  then show ?case using analyze_merchant_risk_cache by blast
qed

lemma cache_check_SomeD:
  assumes "cache_check s key now = Some c"
  shows "\<exists>t. (key, c, t) \<in> set (risk_cache s) \<and> td_seconds (now - t) < cache_ttl s"
proof (cases "map_of (risk_cache s) key")
  case None
  then show ?thesis using assms by (simp add: cache_check_def)
next
  case (Some p)
  obtain c' t where p: "p = (c', t)" by (cases p)
  have "c' = c \<and> td_seconds (now - t) < cache_ttl s"
    using assms Some p by (simp add: cache_check_def split: if_splits)
  moreover have "(key, c', t) \<in> set (risk_cache s)"
    using Some p map_of_SomeD by fastforce
  ultimately show ?thesis by blast
qed

text \<open>
  Claim C1. In every reachable analyzer, whatever the libraries answer, the risk score
  of the result of \<open>analyze_merchant_risk\<close> lies between 0 and 1: a computed score is
  clamped, the score of an unknown merchant is 0.1, that of the error result 0.5, and
  a result served from the cache was one of these when it was stored.
\<close>

theorem risk_score_bounds:
  assumes "reachable s"
  shows "0 \<le> risk_score (fst (analyze_merchant_risk lib s merchant_id user_id now now2))
         \<and> risk_score (fst (analyze_merchant_risk lib s merchant_id user_id now now2)) \<le> 1"
proof (cases "cache_check s (cache_key_of merchant_id user_id) now")
  case (Some c)
  then obtain t where "(cache_key_of merchant_id user_id, c, t) \<in> set (risk_cache s)"
    using cache_check_SomeD by blast
  then have "0 \<le> risk_score c \<and> risk_score c \<le> 1"
    using reachable_cache_bounds [OF assms] by blast
  then show ?thesis using Some by (simp add: analyze_merchant_risk_def)
next
  case None
  show ?thesis
  proof (cases "analyze_try lib s merchant_id user_id now2")
    case (Inl e)
    then show ?thesis using None by (simp add: analyze_merchant_risk_def analysis_error_def)
  next
    case (Inr p)
    obtain r' s' where p: "p = (r', s')" by (cases p)
    from analyze_try_result [OF Inr [unfolded p]] show ?thesis
      using None Inr p by (auto simp: analyze_merchant_risk_def unknown_merchant_def)
  qed
qed

lemma w1_reachable: "reachable w1"
  unfolding w1_def by (rule reachable_add [OF reachable_init])

theorem risk_score_bounds_witness:
  "reachable w1
   \<and> 0 \<le> risk_score (fst (analyze_merchant_risk sample_env w1 ''M1'' None 0 0))
   \<and> risk_score (fst (analyze_merchant_risk sample_env w1 ''M1'' None 0 0)) \<le> 1"
  using risk_score_bounds [OF w1_reachable, of sample_env "''M1''" None 0 0] w1_reachable
  by simp

subsection \<open>The time to live of a cache entry\<close>

lemma cache_check_iff:
  "cache_check s key now = Some r \<longleftrightarrow>
     (\<exists>t. map_of (risk_cache s) key = Some (r, t)
          \<and> (now - t) mod 86400000000 div 1000000 < cache_ttl s)"
  by (auto simp: cache_check_def td_seconds_def split: option.splits)

text \<open>
  Claim C9, at a failing input. The analysis of \<open>M1\<close> is cached at time 0; a minute
  later a transaction between two other identities changes the graph and leaves the
  entry in place. One day and ten seconds after the entry was stored, with a time to
  live of 3600 seconds, the \<open>seconds\<close> field of its age is 10 and the entry is served:
  the result is the one of time 0, which a new computation on the graph as it is
  would not give.
\<close>

theorem stale_entry_served:
  "map (\<lambda>(key, r, t). (key, t)) (risk_cache w9) = [(cache_key_of ''M1'' None, 0)]
   \<and> cache_ttl w9 = 3600
   \<and> total_seconds (86410000000 - 0) = 86410
   \<and> td_seconds (86410000000 - 0) = 10
   \<and> analyze_merchant_risk sample_env w9 ''M1'' None 86410000000 86410000000
       = (fst (analyze_merchant_risk sample_env w1 ''M1'' None 0 0), w9)
   \<and> fst (analyze_merchant_risk sample_env (w9\<lparr>risk_cache := []\<rparr>) ''M1'' None
            86410000000 86410000000)
       \<noteq> fst (analyze_merchant_risk sample_env w1 ''M1'' None 0 0)"
  by (simp add: w9_def w2_def w1_val eval_defs record_defs)

subsection \<open>Unknown merchants\<close>

lemma unknown_merchant_result:
  assumes "\<not> has_node (merchant_graph s) merchant_id"
    and "cache_check s (cache_key_of merchant_id user_id) now = None"
  shows "analyze_merchant_risk lib s merchant_id user_id now now2
           = (unknown_merchant merchant_id, s)"
  using assms by (simp add: analyze_merchant_risk_def analyze_try_def)

text \<open>
  Claim C5, at a failing input. The key of the cache joins the merchant and the user
  with an underscore, so the analysis of \<open>M1\<close> for the user \<open>X_none\<close> is stored under the
  key of the merchant \<open>M1_X\<close> without a user. \<open>M1_X\<close> has no node, and its analysis is
  the cached analysis of \<open>M1\<close>, not the one of an unknown merchant.
\<close>

theorem unknown_merchant_shadowed:
  "\<not> has_node (merchant_graph w5) ''M1_X''
   \<and> cache_key_of ''M1_X'' None = cache_key_of ''M1'' (Some ''X_none'')
   \<and> res_merchant_id (fst (analyze_merchant_risk sample_env w5 ''M1_X'' None 1000000 1000000))
       = ''M1''
   \<and> risk_score (fst (analyze_merchant_risk sample_env w5 ''M1_X'' None 1000000 1000000)) = 0.2
   \<and> factors (fst (analyze_merchant_risk sample_env w5 ''M1_X'' None 1000000 1000000))
       = [''New merchant relationship'']"
  by (simp add: w5_def w1_val eval_defs)

subsection \<open>The time stamps of a node\<close>

text \<open>
  Claim C7, at a failing input. Of two transactions of the same pair, the one recorded
  first carries the later time stamp (two hours) and the second the earlier one (0):
  \<open>first_seen\<close> of both nodes stays at two hours, above the least time stamp seen.
\<close>

theorem first_seen_not_minimum:
  "map (\<lambda>(n, d). (n, first_seen d, last_seen d)) (nodes (merchant_graph w7))
     = [(''M1'', 7200000000, 7200000000), (''U1'', 7200000000, 7200000000)]
   \<and> Min {7200000000, 0 :: int} = 0"
  by (simp add: w7_def record_defs graph_defs)

subsection \<open>The velocity\<close>

lemma w8_node: "nodes_get (merchant_graph w8) ''M1'' = Inr m8"
  by (simp add: w8_def w1_val m8_def record_defs graph_defs)

lemma w8_velocity:
  "metrics (analyze_velocity sample_env w8 ''M1'')
     = Some \<lparr>transactions_per_hour = 4, amount_per_hour = 40, unique_customers_count = 1,
             avg_transaction_amount = 10, time_span_hours = 1 / 2\<rparr>"
  by (simp add: w8_def w1_val record_defs eval_defs)

text \<open>
  Claim C8 fails where the time span lies strictly between 0 and one hour: two
  transactions half an hour apart are 4 transactions per hour for the analyzer and 2
  with the divisor floored at one hour.
\<close>

theorem velocity_floor_counterexample:
  "nodes_get (merchant_graph w8) ''M1'' = Inr m8
   \<and> span_hours m8 = 1 / 2
   \<and> spec_transactions_per_hour m8 = 2
   \<and> map_option transactions_per_hour (metrics (analyze_velocity sample_env w8 ''M1'')) = Some 4"
  using w8_node w8_velocity
  by (simp add: spec_transactions_per_hour_def span_hours_def total_seconds_def m8_def)

lemma nodes_get_has_node: "nodes_get g n = Inr d \<Longrightarrow> has_node g n"
  by (auto simp: nodes_get_def has_node_def split: option.splits)

text \<open>
  Claim C8 as amended. Whenever the velocity analysis yields metrics,
  \<open>transactions_per_hour\<close> is the number of transactions of the node divided by its time
  span in hours, and the divisor is 1 only when the span is exactly 0; this is the
  quotient with the divisor floored at one hour when the span is 0 or at least one hour.
\<close>

theorem velocity_divisor:
  assumes "nodes_get (merchant_graph s) merchant_id = Inr d"
    and "metrics (analyze_velocity lib s merchant_id) = Some v"
  shows "transactions_per_hour v
           = real_of_int (total_transactions d) / (if span_hours d = 0 then 1 else span_hours d)
         \<and> time_span_hours v = (if span_hours d = 0 then 1 else span_hours d)
         \<and> (span_hours d = 0 \<or> 1 \<le> span_hours d
              \<longrightarrow> transactions_per_hour v = spec_transactions_per_hour d)"
proof -
  have n: "has_node (merchant_graph s) merchant_id"
    using assms(1) by (rule nodes_get_has_node)
  have "transactions_per_hour v
          = real_of_int (total_transactions d) / (if span_hours d = 0 then 1 else span_hours d)
        \<and> time_span_hours v = (if span_hours d = 0 then 1 else span_hours d)"
    using assms n unfolding analyze_velocity_def velocity_try_def Let_def
    by (auto simp: py_bind_def py_div_def empty_sub_def split: sum.splits option.splits if_splits)
  moreover have "max (span_hours d) 1 = (if span_hours d = 0 then 1 else span_hours d)"
    if "span_hours d = 0 \<or> 1 \<le> span_hours d"
    using that by auto
  ultimately show ?thesis
    by (simp add: spec_transactions_per_hour_def)
qed

theorem velocity_divisor_witness:
  "nodes_get (merchant_graph w8) ''M1'' = Inr m8
   \<and> metrics (analyze_velocity sample_env w8 ''M1'')
       = Some \<lparr>transactions_per_hour = 4, amount_per_hour = 40, unique_customers_count = 1,
               avg_transaction_amount = 10, time_span_hours = 1 / 2\<rparr>
   \<and> (4 :: real) = real_of_int (total_transactions m8) / (if span_hours m8 = 0 then 1 else span_hours m8)"
  using velocity_divisor [OF w8_node w8_velocity] w8_node w8_velocity by simp

subsection \<open>Edges\<close>

lemma edge_of_None: "edge_of g u v = None \<longleftrightarrow> \<not> has_edge g u v"
  by (auto simp: edge_of_def has_edge_def edge_key_def)

lemma edges_get_edge_of:
  "edges_get g u v = (case edge_of g u v of None \<Rightarrow> Inl (KeyError v) | Some e \<Rightarrow> Inr e)"
  by (auto simp: edges_get_def edge_of_def edge_key_def split: option.splits)

lemma edge_of_cong: "edges g = edges g' \<Longrightarrow> edge_of g u v = edge_of g' u v"
  by (simp add: edge_of_def edge_key_def)

lemma has_edge_cong: "edges g = edges g' \<Longrightarrow> has_edge g u v = has_edge g' u v"
  by (simp add: has_edge_def edge_key_def)

lemma edges_set_node [simp]: "edges (set_node g n f) = edges g"
  by (simp add: set_node_def)

lemma edges_add_node [simp]: "edges (add_node g n d) = edges g"
  by (simp add: add_node_def)

lemma edges_ensure_nodes [simp]: "edges (ensure_nodes g u m t) = edges g"
  by (simp add: ensure_nodes_def Let_def)

lemma map_of_map_entry_same:
  "map_of (AList.map_entry k f al) k = map_option f (map_of al k)"
  by (induction al) auto

lemma map_of_map_entry_other:
  "k' \<noteq> k \<Longrightarrow> map_of (AList.map_entry k f al) k' = map_of al k'"
  by (induction al) auto

lemma edge_of_put_edge:
  "edge_of (put_edge g u m amount timestamp) u m = Some (step_edge (edge_of g u m) amount timestamp)"
proof (cases "map_of (edges g) (u, m)")
  case (Some e)
  then show ?thesis
    by (simp add: put_edge_def has_edge_def edge_key_def set_edge_def edge_of_def step_edge_def
        map_of_map_entry_same)
next
  case None
  note um = None
  show ?thesis
  proof (cases "map_of (edges g) (m, u)")
    case None
    then show ?thesis using um
      by (simp add: put_edge_def has_edge_def edge_key_def add_edge_def edge_of_def step_edge_def
          update_conv')
  next
    case (Some e)
    then have neq: "(u, m) \<noteq> (m, u)" using um by auto
    show ?thesis using um Some neq
      by (simp add: put_edge_def has_edge_def edge_key_def set_edge_def edge_of_def step_edge_def
          map_of_map_entry_same map_of_map_entry_other)
  qed
qed

lemma merchant_graph_invalidate_cache [simp]:
  "merchant_graph (invalidate_cache s m u) = merchant_graph s"
  by (simp add: invalidate_cache_def Let_def)

lemma edge_of_set_node [simp]: "edge_of (set_node g n f) u v = edge_of g u v"
  by (rule edge_of_cong) simp

lemma edge_of_ensure_nodes [simp]: "edge_of (ensure_nodes g a b t) u v = edge_of g u v"
  by (rule edge_of_cong) simp

lemma edges_put_edge_cong:
  "edges g = edges g' \<Longrightarrow>
   edges (put_edge g u m amount timestamp) = edges (put_edge g' u m amount timestamp)"
  by (simp add: put_edge_def has_edge_def edge_key_def set_edge_def add_edge_def
      split: option.splits)

lemma edges_put_edge_set_node [simp]:
  "edges (put_edge (set_node g n f) u m amount timestamp) = edges (put_edge g u m amount timestamp)"
  by (rule edges_put_edge_cong) simp

lemma edges_put_edge_ensure_nodes [simp]:
  "edges (put_edge (ensure_nodes g a b t) u m amount timestamp)
     = edges (put_edge g u m amount timestamp)"
  by (rule edges_put_edge_cong) simp

lemma add_transaction_edge_edges:
  assumes "add_transaction_edge s user_id merchant_id amount timestamp metadata = (Inr (), s')"
  shows "edges (merchant_graph s')
           = edges (put_edge (merchant_graph s) user_id merchant_id amount timestamp)"
  using assms unfolding add_transaction_edge_unfold Let_def
  by (auto split: sum.splits)

lemma add_transaction_edge_edge:
  assumes "add_transaction_edge s user_id merchant_id amount timestamp metadata = (Inr (), s')"
  shows "edge_of (merchant_graph s') user_id merchant_id
           = Some (step_edge (edge_of (merchant_graph s) user_id merchant_id) amount timestamp)"
  using edge_of_cong [OF add_transaction_edge_edges [OF assms]] edge_of_put_edge by simp

subsection \<open>The relationship of a user and a merchant\<close>

lemma relationship_no_edge:
  "\<not> has_edge (merchant_graph s) user_id merchant_id \<Longrightarrow>
   analyze_user_merchant_relationship lib s user_id merchant_id
     = Inr \<lparr>metrics = None, risk_contribution = 0.1,
            sub_factors = [''New merchant relationship'']\<rparr>"
  by (simp add: analyze_user_merchant_relationship_def)

lemma relationship_first_edge:
  assumes "edge_of (merchant_graph s) user_id merchant_id = Some (new_edge amount timestamp)"
  shows "analyze_user_merchant_relationship lib s user_id merchant_id
     = Inr \<lparr>metrics = Some \<lparr>rel_transaction_count = 1, rel_total_amount = amount,
                            rel_avg_amount = amount, relationship_age_days = 0\<rparr>,
            risk_contribution = 0, sub_factors = []\<rparr>"
proof -
  have h: "has_edge (merchant_graph s) user_id merchant_id"
    using assms edge_of_None [of "merchant_graph s" user_id merchant_id] by simp
  show ?thesis
    using h assms
    by (simp add: analyze_user_merchant_relationship_def edges_get_edge_of new_edge_def
        py_bind_def py_div_def td_days_def Let_def)
qed

lemma centrality_factors:
  "''New merchant relationship'' \<notin> set (sub_factors (analyze_centrality lib s m))"
  unfolding analyze_centrality_def centrality_try_def Let_def py_bind_def empty_sub_def
  by (auto split: sum.splits if_splits)

lemma clustering_factors:
  "''New merchant relationship'' \<notin> set (sub_factors (analyze_clustering lib s m))"
  unfolding analyze_clustering_def clustering_try_def Let_def py_bind_def empty_sub_def
  by (auto split: sum.splits if_splits)

lemma velocity_factors:
  "''New merchant relationship'' \<notin> set (sub_factors (analyze_velocity lib s m))"
  unfolding analyze_velocity_def velocity_try_def Let_def py_bind_def empty_sub_def py_div_def
  by (auto split: sum.splits if_splits option.splits)


lemma analyze_try_factors:
  assumes "analyze_try lib s merchant_id user_id now2 = Inr (r, s')"
  shows "r = unknown_merchant merchant_id
         \<or> (\<exists>x. pre_clamp lib s merchant_id user_id = Inr (x, factors r))"
  using assms unfolding analyze_try_unfold py_bind_def
  by (auto split: if_splits sum.splits prod.splits)

lemma pre_clamp_factors:
  assumes "pre_clamp lib s merchant_id (Some user_id) = Inr (x, fs)"
    and "analyze_user_merchant_relationship lib s user_id merchant_id = Inr r"
    and "sub_factors r = []"
  shows "''New merchant relationship'' \<notin> set fs"
  using assms unfolding pre_clamp_def Let_def py_bind_def
  by (auto simp: centrality_factors clustering_factors velocity_factors split: if_splits)

text \<open>
  Claim C10 as amended. While no edge joins the user and the merchant, the relationship
  analysis contributes 0.1 with the factor \<open>New merchant relationship\<close>. Once the first
  transaction of the pair is recorded the edge exists: the relationship analysis
  contributes 0 and no factor, and the analysis of the merchant for that user does not
  have the factor.
\<close>

theorem relationship_after_first_transaction:
  assumes "\<not> has_edge (merchant_graph s) user_id merchant_id"
    and "add_transaction_edge s user_id merchant_id amount timestamp metadata = (Inr (), s')"
  shows "analyze_user_merchant_relationship lib s user_id merchant_id
           = Inr \<lparr>metrics = None, risk_contribution = 0.1,
                  sub_factors = [''New merchant relationship'']\<rparr>
         \<and> analyze_user_merchant_relationship lib s' user_id merchant_id
           = Inr \<lparr>metrics = Some \<lparr>rel_transaction_count = 1, rel_total_amount = amount,
                                  rel_avg_amount = amount, relationship_age_days = 0\<rparr>,
                  risk_contribution = 0, sub_factors = []\<rparr>
         \<and> ''New merchant relationship''
             \<notin> set (factors (fst (analyze_merchant_risk lib s' merchant_id (Some user_id) now now2)))"
proof -
  have "edge_of (merchant_graph s) user_id merchant_id = None"
    using assms(1) by (simp add: edge_of_None)
  then have e: "edge_of (merchant_graph s') user_id merchant_id = Some (new_edge amount timestamp)"
    using add_transaction_edge_edge [OF assms(2)] by (simp add: step_edge_def)
  note rel = relationship_first_edge [OF e, of lib]
  have miss: "cache_check s' (cache_key_of merchant_id (Some user_id)) now = None"
    using invalidated_lookup [OF assms(2), of "cache_key_of merchant_id (Some user_id)"]
      py_in_cache_key_merchant by (simp add: cache_check_def)
  have "''New merchant relationship''
          \<notin> set (factors (fst (analyze_merchant_risk lib s' merchant_id (Some user_id) now now2)))"
  proof (cases "analyze_try lib s' merchant_id (Some user_id) now2")
    case (Inl err)
    then show ?thesis using miss by (simp add: analyze_merchant_risk_def analysis_error_def)
  next
    case (Inr p)
    obtain r s'' where p: "p = (r, s'')" by (cases p)
    have res: "fst (analyze_merchant_risk lib s' merchant_id (Some user_id) now now2) = r"
      using miss Inr p by (simp add: analyze_merchant_risk_def)
    from analyze_try_factors [OF Inr [unfolded p]] show ?thesis
    proof
      assume "r = unknown_merchant merchant_id"
      then show ?thesis using res by (simp add: unknown_merchant_def)
    next
      assume "\<exists>x. pre_clamp lib s' merchant_id (Some user_id) = Inr (x, factors r)"
      then obtain x where "pre_clamp lib s' merchant_id (Some user_id) = Inr (x, factors r)"
        by blast
      then show ?thesis using pre_clamp_factors [OF _ rel] res by simp
    qed
  qed
  then show ?thesis using relationship_no_edge [OF assms(1)] rel by simp
qed

lemma c0_no_edge: "\<not> has_edge (merchant_graph c0) ''U9'' ''M2''"
  by (simp add: c0_def record_defs graph_defs)

lemma c1_ret: "add_transaction_edge c0 ''U9'' ''M2'' 15 60000000 None = (Inr (), c1)"
  unfolding c1_def
  by (rule prod_eqI) (simp_all add: c0_def record_defs graph_defs)

theorem relationship_after_first_transaction_witness:
  "\<not> has_edge (merchant_graph c0) ''U9'' ''M2''
   \<and> add_transaction_edge c0 ''U9'' ''M2'' 15 60000000 None = (Inr (), c1)
   \<and> analyze_user_merchant_relationship sample_env c0 ''U9'' ''M2''
       = Inr \<lparr>metrics = None, risk_contribution = 0.1,
              sub_factors = [''New merchant relationship'']\<rparr>
   \<and> analyze_user_merchant_relationship sample_env c1 ''U9'' ''M2''
       = Inr \<lparr>metrics = Some \<lparr>rel_transaction_count = 1, rel_total_amount = 15,
                              rel_avg_amount = 15, relationship_age_days = 0\<rparr>,
              risk_contribution = 0, sub_factors = []\<rparr>"
  using relationship_after_first_transaction [OF c0_no_edge c1_ret, of sample_env 0 0]
    c0_no_edge c1_ret by simp

text \<open>
  Claim C10 fails as stated: after the one transaction of the new user \<open>U9\<close> with the
  existing merchant \<open>M2\<close> the relationship analysis contributes 0, and the factors of
  the analysis are those of the velocity only.
\<close>

theorem new_relationship_counterexample:
  "has_node (merchant_graph c0) ''M2''
   \<and> \<not> has_node (merchant_graph c0) ''U9''
   \<and> add_transaction_edge c0 ''U9'' ''M2'' 15 60000000 None = (Inr (), c1)
   \<and> map_sum id risk_contribution (analyze_user_merchant_relationship sample_env c1 ''U9'' ''M2'')
       = Inr 0
   \<and> factors (fst (analyze_merchant_risk sample_env c1 ''M2'' (Some ''U9'') 60000000 60000000))
       = [''High transaction velocity (#.#/hour)'', ''High activity for new merchant'']"
  using c1_ret
  by (simp add: c1_def c0_def record_defs eval_defs)

subsection \<open>The accumulation on an edge\<close>

lemma set_map_entry:
  "set (AList.map_entry k f al) \<subseteq> set al \<union> {(k, f v) | v. (k, v) \<in> set al}"
  by (induction al) auto

lemma float_sum_snoc: "as \<noteq> [] \<Longrightarrow> float_sum (as @ [a]) = float_add (float_sum as) a"
  by (cases as) simp_all

lemma edge_ok_new [simp]: "edge_ok (new_edge amount timestamp)"
  by (simp add: edge_ok_def new_edge_def)

lemma edge_ok_grow [simp]: "edge_ok e \<Longrightarrow> edge_ok (grow_edge amount timestamp e)"
  by (simp add: edge_ok_def grow_edge_def float_sum_snoc)

lemma put_edge_ok:
  assumes "\<And>p. p \<in> set (edges g) \<Longrightarrow> edge_ok (snd p)"
    and "p \<in> set (edges (put_edge g u m amount timestamp))"
  shows "edge_ok (snd p)"
proof (cases "has_edge g u m")
  case True
  then obtain k' where k': "edge_key g u m = Some k'" by (auto simp: has_edge_def)
  then have "p \<in> set (AList.map_entry k' (grow_edge amount timestamp) (edges g))"
    using assms(2) True by (simp add: put_edge_def set_edge_def)
  then have "p \<in> set (edges g)
             \<or> (\<exists>v. (k', v) \<in> set (edges g) \<and> p = (k', grow_edge amount timestamp v))"
    using set_map_entry by fastforce
  then show ?thesis
  proof
    assume "p \<in> set (edges g)"
    then show ?thesis by (rule assms(1))
  next
    assume "\<exists>v. (k', v) \<in> set (edges g) \<and> p = (k', grow_edge amount timestamp v)"
    then obtain v where v: "(k', v) \<in> set (edges g)" "p = (k', grow_edge amount timestamp v)"
      by blast
    have "edge_ok (snd (k', v))" using v(1) by (rule assms(1))
    then show ?thesis using v(2) by simp
  qed
next
  case False
  then have "edge_key g u m = None" unfolding has_edge_def by blast
  then have "p \<in> set (AList.update (u, m) (new_edge amount timestamp) (edges g))"
    using assms(2) False by (simp add: put_edge_def add_edge_def)
  then have "p = ((u, m), new_edge amount timestamp) \<or> p \<in> set (edges g)"
    using set_update_subset by fastforce
  then show ?thesis
  proof
    assume "p = ((u, m), new_edge amount timestamp)"
    then show ?thesis by simp
  next
    assume "p \<in> set (edges g)"
    then show ?thesis by (rule assms(1))
  qed
qed

lemma add_transaction_edge_edges_cases:
  "edges (merchant_graph (snd (add_transaction_edge s user_id merchant_id amount timestamp metadata)))
     = edges (merchant_graph s)
   \<or> edges (merchant_graph (snd (add_transaction_edge s user_id merchant_id amount timestamp metadata)))
     = edges (put_edge (merchant_graph s) user_id merchant_id amount timestamp)"
  unfolding add_transaction_edge_unfold Let_def
  by (auto split: sum.splits)

lemma analyze_merchant_risk_graph [simp]:
  "merchant_graph (snd (analyze_merchant_risk lib s merchant_id user_id now now2)) = merchant_graph s"
proof (cases "analyze_try lib s merchant_id user_id now2")
  case (Inl e)
  then show ?thesis by (simp add: analyze_merchant_risk_def split: option.splits)
next
  case (Inr p)
  obtain r s' where p: "p = (r, s')" by (cases p)
  have "merchant_graph s' = merchant_graph s"
    using analyze_try_result [OF Inr [unfolded p]] by auto
  then show ?thesis using Inr p by (simp add: analyze_merchant_risk_def split: option.splits)
qed

lemma reachable_edge_ok:
  assumes "reachable s" and "p \<in> set (edges (merchant_graph s))"
  shows "edge_ok (snd p)"
  using assms
proof (induction arbitrary: p rule: reachable.induct)
  case reachable_init
  then show ?case by (simp add: init_def)
next
  case (reachable_add s user_id merchant_id amount timestamp metadata)
  from add_transaction_edge_edges_cases [of s user_id merchant_id amount timestamp metadata]
  show ?case
  proof
    assume "edges (merchant_graph (snd (add_transaction_edge s user_id merchant_id amount
                timestamp metadata))) = edges (merchant_graph s)"
    then show ?thesis using reachable_add.prems reachable_add.IH by simp
  next
    assume "edges (merchant_graph (snd (add_transaction_edge s user_id merchant_id amount
                timestamp metadata)))
              = edges (put_edge (merchant_graph s) user_id merchant_id amount timestamp)"
    then have "p \<in> set (edges (put_edge (merchant_graph s) user_id merchant_id amount timestamp))"
      using reachable_add.prems by simp
    then show ?thesis using put_edge_ok reachable_add.IH by blast
  qed
next
  case (reachable_analyze s lib merchant_id user_id now now2)
  then show ?case by simp
qed

lemma record_all_edge:
  assumes "record_all s user_id merchant_id txs = (Inr (), s')"
    and "edge_of (merchant_graph s) user_id merchant_id = Some e0"
  shows "\<exists>e. edge_of (merchant_graph s') user_id merchant_id = Some e
             \<and> transaction_count e = transaction_count e0 + int (length txs)
             \<and> total_amount e = foldl float_add (total_amount e0) (map fst txs)
             \<and> amounts e = amounts e0 @ map fst txs"
  using assms
proof (induction txs arbitrary: s e0)
  case Nil
  then show ?case by simp
next
  case (Cons tx txs)
  obtain amount timestamp metadata where tx: "tx = (amount, timestamp, metadata)"
    by (cases tx)
  obtain res s1 where step: "add_transaction_edge s user_id merchant_id amount timestamp metadata
                               = (res, s1)"
    by (cases "add_transaction_edge s user_id merchant_id amount timestamp metadata")
  have res: "res = Inr ()" and rest: "record_all s1 user_id merchant_id txs = (Inr (), s')"
    using Cons.prems(1) tx step by (auto split: sum.splits)
  have e1: "edge_of (merchant_graph s1) user_id merchant_id
              = Some (grow_edge amount timestamp e0)"
    using add_transaction_edge_edge [OF step [unfolded res]] Cons.prems(2)
    by (simp add: step_edge_def)
  obtain e where e: "edge_of (merchant_graph s') user_id merchant_id = Some e"
      "transaction_count e = transaction_count (grow_edge amount timestamp e0) + int (length txs)"
      "total_amount e = foldl float_add (total_amount (grow_edge amount timestamp e0))
                          (map fst txs)"
      "amounts e = amounts (grow_edge amount timestamp e0) @ map fst txs"
    using Cons.IH [OF rest e1] by blast
  show ?case using e tx by (simp add: grow_edge_def)
qed

text \<open>
  Claim C2 as amended. In every reachable analyzer the total of each edge is the sum
  of its amounts as floats add up from left to right, every addition rounded. From a
  reachable analyzer without an edge between a user and a merchant, a sequence of
  \<open>n > 0\<close> calls for this pair that all return leaves an edge with
  \<open>transaction_count = n\<close>, with the amounts in the order of the calls and with this
  rounded sum of them as \<open>total_amount\<close>.
\<close>

theorem edge_accumulation:
  assumes "reachable s"
  shows "(\<forall>k e. (k, e) \<in> set (edges (merchant_graph s)) \<longrightarrow> total_amount e = float_sum (amounts e))
         \<and> (\<forall>user_id merchant_id txs s'.
               \<not> has_edge (merchant_graph s) user_id merchant_id \<and> txs \<noteq> []
               \<and> record_all s user_id merchant_id txs = (Inr (), s')
               \<longrightarrow> (\<exists>e. edges_get (merchant_graph s') user_id merchant_id = Inr e
                        \<and> transaction_count e = int (length txs)
                        \<and> total_amount e = float_sum (map fst txs)
                        \<and> amounts e = map fst txs))"
proof (intro conjI allI impI)
  fix k e assume "(k, e) \<in> set (edges (merchant_graph s))"
  then show "total_amount e = float_sum (amounts e)"
    using reachable_edge_ok [OF assms, of "(k, e)"] by (simp add: edge_ok_def)
next
  fix user_id merchant_id txs s'
  assume a: "\<not> has_edge (merchant_graph s) user_id merchant_id \<and> txs \<noteq> []
             \<and> record_all s user_id merchant_id txs = (Inr (), s')"
  then obtain tx rest where txs: "txs = tx # rest" by (cases txs) auto
  obtain amount timestamp metadata where tx: "tx = (amount, timestamp, metadata)"
    by (cases tx)
  obtain res s1 where step: "add_transaction_edge s user_id merchant_id amount timestamp metadata
                               = (res, s1)"
    by (cases "add_transaction_edge s user_id merchant_id amount timestamp metadata")
  have res: "res = Inr ()" and rest: "record_all s1 user_id merchant_id rest = (Inr (), s')"
    using a txs tx step by (auto split: sum.splits)
  have "edge_of (merchant_graph s) user_id merchant_id = None"
    using a by (simp add: edge_of_None)
  then have e1: "edge_of (merchant_graph s1) user_id merchant_id = Some (new_edge amount timestamp)"
    using add_transaction_edge_edge [OF step [unfolded res]] by (simp add: step_edge_def)
  obtain e where e: "edge_of (merchant_graph s') user_id merchant_id = Some e"
      "transaction_count e = transaction_count (new_edge amount timestamp) + int (length rest)"
      "total_amount e = foldl float_add (total_amount (new_edge amount timestamp))
                          (map fst rest)"
      "amounts e = amounts (new_edge amount timestamp) @ map fst rest"
    using record_all_edge [OF rest e1] by blast
  have "edges_get (merchant_graph s') user_id merchant_id = Inr e"
    using e(1) by (simp add: edges_get_edge_of)
  then show "\<exists>e. edges_get (merchant_graph s') user_id merchant_id = Inr e
                \<and> transaction_count e = int (length txs)
                \<and> total_amount e = float_sum (map fst txs)
                \<and> amounts e = map fst txs"
    using e txs tx by (auto simp: new_edge_def)
qed

lemma w6_ret:
  "record_all w1 ''U3'' ''M1'' [(5, 600000000, None), (7, 1200000000, None)] = (Inr (), w6)"
  unfolding w6_def
  by (rule prod_eqI) (simp_all add: w1_val record_defs graph_defs)

lemma w1_no_edge: "\<not> has_edge (merchant_graph w1) ''U3'' ''M1''"
  by (simp add: w1_val graph_defs)

theorem edge_accumulation_witness:
  "reachable w1
   \<and> \<not> has_edge (merchant_graph w1) ''U3'' ''M1''
   \<and> record_all w1 ''U3'' ''M1'' [(5, 600000000, None), (7, 1200000000, None)] = (Inr (), w6)
   \<and> map_sum id transaction_count (edges_get (merchant_graph w6) ''U3'' ''M1'') = Inr 2
   \<and> map_sum id total_amount (edges_get (merchant_graph w6) ''U3'' ''M1'') = Inr 12
   \<and> map_sum id amounts (edges_get (merchant_graph w6) ''U3'' ''M1'') = Inr [5, 7]"
proof -
  have "\<exists>e. edges_get (merchant_graph w6) ''U3'' ''M1'' = Inr e
           \<and> transaction_count e = int (length [(5 :: real, 600000000 :: int, None :: (string \<times> string) list option), (7, 1200000000, None)])
           \<and> total_amount e = float_sum (map fst [(5 :: real, 600000000 :: int, None :: (string \<times> string) list option), (7, 1200000000, None)])
           \<and> amounts e = map fst [(5 :: real, 600000000 :: int, None :: (string \<times> string) list option), (7, 1200000000, None)]"
    using edge_accumulation [OF w1_reachable] w1_no_edge w6_ret by blast
  then show ?thesis using w1_reachable w1_no_edge w6_ret by (auto simp: float_defs)
qed

text \<open>
  Claim C2 fails as stated: the total is not the exact sum. Two transactions of
  10000000000000000 and 1, both binary64 numbers, leave the total 10000000000000000,
  since the exact sum lies half way between two binary64 numbers and is rounded to the
  even one.
\<close>

theorem rounded_total_counterexample:
  "fst (record_all init ''U1'' ''M1'' [(10000000000000000, 0, None), (1, 1000000, None)]) = Inr ()
   \<and> map (\<lambda>(k, e). (k, transaction_count e, total_amount e, amounts e))
        (edges (merchant_graph (snd (record_all init ''U1'' ''M1''
           [(10000000000000000, 0, None), (1, 1000000, None)]))))
       = [((''U1'', ''M1''), 2, 10000000000000000, [10000000000000000, 1])]
   \<and> sum_list [10000000000000000, 1 :: real] = 10000000000000001"
  by (simp add: record_defs graph_defs)


subsection \<open>Amounts and the outcome of a recording\<close>

lemma map_of_map_entry:
  "map_of (AList.map_entry k f al) k' = (if k' = k then map_option f (map_of al k) else map_of al k')"
  by (simp add: map_of_map_entry_same map_of_map_entry_other)

lemma has_node_set_node [simp]: "has_node (set_node g n f) x = has_node g x"
  by (auto simp: has_node_def set_node_def map_of_map_entry)

lemma has_node_add_node [simp]: "has_node (add_node g n d) x = (x = n \<or> has_node g x)"
  by (auto simp: has_node_def add_node_def update_conv')

lemma has_node_ensure_nodes:
  "has_node (ensure_nodes g u m t) x = (x = u \<or> x = m \<or> has_node g x)"
  by (auto simp: ensure_nodes_def Let_def)

lemma nodes_put_edge [simp]: "nodes (put_edge g u m amount timestamp) = nodes g"
  by (simp add: put_edge_def set_edge_def add_edge_def split: option.splits)

lemma has_node_put_edge [simp]: "has_node (put_edge g u m amount timestamp) x = has_node g x"
  by (simp add: has_node_def)

lemma customers_of_set_node:
  assumes "\<And>d. unique_customers (f d) = unique_customers d"
  shows "customers_of (set_node g n f) m = customers_of g m"
  using assms
  by (auto simp: customers_of_def nodes_get_def set_node_def map_of_map_entry py_bind_def
      split: option.splits)

lemma merchants_of_set_node:
  assumes "\<And>d. unique_merchants (f d) = unique_merchants d"
  shows "merchants_of (set_node g n f) u = merchants_of g u"
  using assms
  by (auto simp: merchants_of_def nodes_get_def set_node_def map_of_map_entry py_bind_def
      split: option.splits)

lemma add_transaction_edge_outcome:
  "fst (add_transaction_edge s user_id merchant_id amount timestamp metadata)
     = (let g = ensure_nodes (merchant_graph s) user_id merchant_id timestamp
        in case customers_of g merchant_id of
             Inl e \<Rightarrow> Inl e
           | Inr cs \<Rightarrow> (case merchants_of g user_id of Inl e \<Rightarrow> Inl e | Inr ms \<Rightarrow> Inr ()))"
  unfolding add_transaction_edge_unfold Let_def
  by (simp add: customers_of_set_node merchants_of_set_node count_txn_def seen_by_def
      split: sum.splits)

lemma roles_fit_customers:
  assumes "roles_fit g user_id merchant_id"
  shows "\<exists>cs. customers_of (ensure_nodes g user_id merchant_id timestamp) merchant_id = Inr cs"
  using assms
  by (auto simp: roles_fit_def customers_of_def ensure_nodes_def Let_def nodes_get_def
      has_node_def add_node_def update_conv' py_bind_def merchant_node_def user_node_def
      split: option.splits)

lemma roles_fit_merchants:
  assumes "roles_fit g user_id merchant_id"
  shows "\<exists>ms. merchants_of (ensure_nodes g user_id merchant_id timestamp) user_id = Inr ms"
  using assms
  by (auto simp: roles_fit_def merchants_of_def ensure_nodes_def Let_def nodes_get_def
      has_node_def add_node_def update_conv' py_bind_def merchant_node_def user_node_def
      split: option.splits)

lemma roles_fit_returns:
  assumes "roles_fit (merchant_graph s) user_id merchant_id"
  shows "fst (add_transaction_edge s user_id merchant_id amount timestamp metadata) = Inr ()"
  using roles_fit_customers [OF assms, of timestamp] roles_fit_merchants [OF assms, of timestamp]
  by (auto simp: add_transaction_edge_outcome Let_def)

lemma add_transaction_edge_keeps_nodes:
  assumes "has_node (merchant_graph s) n"
  shows "has_node (merchant_graph (snd (add_transaction_edge s user_id merchant_id amount
            timestamp metadata))) n"
  using assms unfolding add_transaction_edge_unfold Let_def
  by (auto simp: has_node_ensure_nodes split: sum.splits)

lemma has_edge_iff:
  "has_edge g a b \<longleftrightarrow> map_of (edges g) (a, b) \<noteq> None \<or> map_of (edges g) (b, a) \<noteq> None"
  by (auto simp: has_edge_def edge_key_def)

lemma has_edge_put_edge:
  assumes "has_edge g a b"
  shows "has_edge (put_edge g u m amount timestamp) a b"
proof -
  have "map_of (edges (put_edge g u m amount timestamp)) k \<noteq> None"
    if "map_of (edges g) k \<noteq> None" for k
    using that
    by (auto simp: put_edge_def set_edge_def add_edge_def update_conv' map_of_map_entry
        split: option.splits)
  then show ?thesis using assms unfolding has_edge_iff by blast
qed

lemma add_transaction_edge_keeps_edges:
  assumes "has_edge (merchant_graph s) a b"
  shows "has_edge (merchant_graph (snd (add_transaction_edge s user_id merchant_id amount
            timestamp metadata))) a b"
proof -
  let ?g' = "merchant_graph (snd (add_transaction_edge s user_id merchant_id amount
            timestamp metadata))"
  from add_transaction_edge_edges_cases [of s user_id merchant_id amount timestamp metadata]
  show ?thesis
  proof
    assume "edges ?g' = edges (merchant_graph s)"
    then show ?thesis using assms has_edge_cong by blast
  next
    assume "edges ?g' = edges (put_edge (merchant_graph s) user_id merchant_id amount timestamp)"
    then have "has_edge ?g' a b
                 = has_edge (put_edge (merchant_graph s) user_id merchant_id amount timestamp) a b"
      by (rule has_edge_cong)
    then show ?thesis using has_edge_put_edge [OF assms] by simp
  qed
qed

text \<open>
  Claim C6 as amended. \<open>add_transaction_edge\<close> does not look at the amount: whether it
  returns or raises is the same for every amount. When the identities fit the roles of
  their nodes it returns, whatever the amount, and the edge of the pair has the amount
  added as it is given. Returning or not, it keeps every node and every edge.
\<close>

theorem record_accepts_any_amount:
  "fst (add_transaction_edge s user_id merchant_id amount timestamp metadata)
     = fst (add_transaction_edge s user_id merchant_id amount' timestamp metadata)
   \<and> (roles_fit (merchant_graph s) user_id merchant_id \<longrightarrow>
        fst (add_transaction_edge s user_id merchant_id amount timestamp metadata) = Inr ()
        \<and> edge_of (merchant_graph (snd (add_transaction_edge s user_id merchant_id amount
                      timestamp metadata))) user_id merchant_id
            = Some (step_edge (edge_of (merchant_graph s) user_id merchant_id) amount timestamp))
   \<and> (\<forall>n. has_node (merchant_graph s) n \<longrightarrow>
            has_node (merchant_graph (snd (add_transaction_edge s user_id merchant_id amount
              timestamp metadata))) n)
   \<and> (\<forall>a b. has_edge (merchant_graph s) a b \<longrightarrow>
            has_edge (merchant_graph (snd (add_transaction_edge s user_id merchant_id amount
              timestamp metadata))) a b)"
proof (intro conjI impI allI)
  show "fst (add_transaction_edge s user_id merchant_id amount timestamp metadata)
          = fst (add_transaction_edge s user_id merchant_id amount' timestamp metadata)"
    by (simp only: add_transaction_edge_outcome)
next
  assume r: "roles_fit (merchant_graph s) user_id merchant_id"
  show ret: "fst (add_transaction_edge s user_id merchant_id amount timestamp metadata) = Inr ()"
    using r by (rule roles_fit_returns)
  have "add_transaction_edge s user_id merchant_id amount timestamp metadata
          = (Inr (), snd (add_transaction_edge s user_id merchant_id amount timestamp metadata))"
    using ret by (simp add: prod_eq_iff)
  then show "edge_of (merchant_graph (snd (add_transaction_edge s user_id merchant_id amount
                      timestamp metadata))) user_id merchant_id
            = Some (step_edge (edge_of (merchant_graph s) user_id merchant_id) amount timestamp)"
    by (rule add_transaction_edge_edge)
next
  fix n assume "has_node (merchant_graph s) n"
  then show "has_node (merchant_graph (snd (add_transaction_edge s user_id merchant_id amount
              timestamp metadata))) n"
    by (rule add_transaction_edge_keeps_nodes)
next
  fix a b assume "has_edge (merchant_graph s) a b"
  then show "has_edge (merchant_graph (snd (add_transaction_edge s user_id merchant_id amount
              timestamp metadata))) a b"
    by (rule add_transaction_edge_keeps_edges)
qed

text \<open>
  Claim C6 fails as stated: a negative amount is not rejected; it is recorded on the
  edge and in the totals of both nodes.
\<close>

theorem negative_amount_recorded:
  "fst (add_transaction_edge init ''U1'' ''M1'' (- 5) 0 None) = Inr ()
   \<and> map (\<lambda>(k, e). (k, total_amount e, amounts e))
        (edges (merchant_graph (snd (add_transaction_edge init ''U1'' ''M1'' (- 5) 0 None))))
       = [((''U1'', ''M1''), - 5, [- 5])]
   \<and> map (\<lambda>(n, d). (n, node_total_amount d))
        (nodes (merchant_graph (snd (add_transaction_edge init ''U1'' ''M1'' (- 5) 0 None))))
       = [(''M1'', - 5), (''U1'', - 5)]"
  by (simp add: record_defs graph_defs)

lemma w1_roles: "roles_fit (merchant_graph w1) ''U1'' ''M1''"
  by (simp add: roles_fit_def w1_val)

theorem record_accepts_any_amount_witness:
  "roles_fit (merchant_graph w1) ''U1'' ''M1''
   \<and> has_node (merchant_graph w1) ''M1''
   \<and> has_edge (merchant_graph w1) ''U1'' ''M1''
   \<and> fst (add_transaction_edge w1 ''U1'' ''M1'' (- 5) 60000000 None) = Inr ()
   \<and> map_option amounts (edge_of (merchant_graph (snd (add_transaction_edge w1 ''U1'' ''M1'' (- 5)
          60000000 None))) ''U1'' ''M1'') = Some [10, - 5]
   \<and> has_node (merchant_graph (snd (add_transaction_edge w1 ''U1'' ''M1'' (- 5) 60000000 None)))
        ''M1''
   \<and> has_edge (merchant_graph (snd (add_transaction_edge w1 ''U1'' ''M1'' (- 5) 60000000 None)))
        ''U1'' ''M1''"
proof -
  have n: "has_node (merchant_graph w1) ''M1''" and e: "has_edge (merchant_graph w1) ''U1'' ''M1''"
    and v: "edge_of (merchant_graph w1) ''U1'' ''M1''
              = Some \<lparr>transaction_count = 1, total_amount = 10, first_transaction = 0,
                      last_transaction = 0, amounts = [10]\<rparr>"
    by (simp_all add: w1_val graph_defs edge_of_def)
  note th = record_accepts_any_amount [of w1 "''U1''" "''M1''" "- 5" 60000000 None 0]
  have "fst (add_transaction_edge w1 ''U1'' ''M1'' (- 5) 60000000 None) = Inr ()"
    using th w1_roles by blast
  moreover have "edge_of (merchant_graph (snd (add_transaction_edge w1 ''U1'' ''M1'' (- 5)
          60000000 None))) ''U1'' ''M1''
      = Some (step_edge (edge_of (merchant_graph w1) ''U1'' ''M1'') (- 5) 60000000)"
    using th w1_roles by blast
  moreover have "has_node (merchant_graph (snd (add_transaction_edge w1 ''U1'' ''M1'' (- 5)
          60000000 None))) ''M1''"
    using th n by blast
  moreover have "has_edge (merchant_graph (snd (add_transaction_edge w1 ''U1'' ''M1'' (- 5)
          60000000 None))) ''U1'' ''M1''"
    using th e by blast
  ultimately show ?thesis
    using w1_roles n e v by (simp add: step_edge_def grow_edge_def)
qed

subsection \<open>Errors inside an analysis\<close>

lemma nodes_get_Inl: "nodes_get g n = Inl e \<Longrightarrow> \<not> has_node g n"
  by (auto simp: nodes_get_def has_node_def split: option.splits)

lemma pre_clamp_Inl:
  "pre_clamp lib s merchant_id user_id = Inl e \<longleftrightarrow>
     (\<exists>u. user_id = Some u \<and> u \<noteq> []
          \<and> analyze_user_merchant_relationship lib s u merchant_id = Inl e)"
  unfolding pre_clamp_def Let_def py_bind_def
  by (auto split: option.splits sum.splits)

lemma analyze_try_Inl:
  "analyze_try lib s merchant_id user_id now2 = Inl e \<longleftrightarrow>
     has_node (merchant_graph s) merchant_id
     \<and> (\<exists>u. user_id = Some u \<and> u \<noteq> []
            \<and> analyze_user_merchant_relationship lib s u merchant_id = Inl e)"
proof (cases "has_node (merchant_graph s) merchant_id")
  case False
  then show ?thesis by (simp add: analyze_try_unfold)
next
  case True
  then obtain d where d: "nodes_get (merchant_graph s) merchant_id = Inr d"
    using nodes_get_Inl by (cases "nodes_get (merchant_graph s) merchant_id") auto
  have "analyze_try lib s merchant_id user_id now2 = Inl e
          \<longleftrightarrow> pre_clamp lib s merchant_id user_id = Inl e"
    using True d unfolding analyze_try_unfold py_bind_def
    by (auto split: sum.splits prod.splits)
  then show ?thesis using True by (simp add: pre_clamp_Inl)
qed

text \<open>
  Claim C3 as amended. Without a live cache entry, the \<open>try\<close> of
  \<open>analyze_merchant_risk\<close> raises exactly when the merchant has a node, a user is given
  and the relationship analysis raises; the result is then the error result, with risk
  score 0.5 and the one factor \<open>Analysis error\<close>, and the analyzer is unchanged. An
  error inside the centrality, the clustering or the velocity analysis does not reach
  this boundary: that analysis answers with no metrics, contribution 0 and no factor.
\<close>

theorem analysis_error_boundary:
  assumes "cache_check s (cache_key_of merchant_id user_id) now = None"
  shows "(analyze_try lib s merchant_id user_id now2 = Inl e \<longleftrightarrow>
            has_node (merchant_graph s) merchant_id
            \<and> (\<exists>u. user_id = Some u \<and> u \<noteq> []
                   \<and> analyze_user_merchant_relationship lib s u merchant_id = Inl e))
         \<and> (analyze_try lib s merchant_id user_id now2 = Inl e \<longrightarrow>
              analyze_merchant_risk lib s merchant_id user_id now now2
                = (analysis_error merchant_id e, s)
              \<and> risk_score (analysis_error merchant_id e) = 0.5
              \<and> factors (analysis_error merchant_id e) = [''Analysis error''])
         \<and> (centrality_try lib s merchant_id = Inl e \<longrightarrow>
              analyze_centrality lib s merchant_id = empty_sub)
         \<and> (clustering_try lib s merchant_id = Inl e \<longrightarrow>
              analyze_clustering lib s merchant_id = empty_sub)
         \<and> (velocity_try lib s merchant_id = Inl e \<longrightarrow>
              analyze_velocity lib s merchant_id = empty_sub)"
proof (intro conjI impI)
  show "analyze_try lib s merchant_id user_id now2 = Inl e \<longleftrightarrow>
          has_node (merchant_graph s) merchant_id
          \<and> (\<exists>u. user_id = Some u \<and> u \<noteq> []
                 \<and> analyze_user_merchant_relationship lib s u merchant_id = Inl e)"
    by (rule analyze_try_Inl)
next
  assume "analyze_try lib s merchant_id user_id now2 = Inl e"
  then show "analyze_merchant_risk lib s merchant_id user_id now now2
               = (analysis_error merchant_id e, s)"
    using assms by (simp add: analyze_merchant_risk_def)
next
  show "risk_score (analysis_error merchant_id e) = 0.5"
    "factors (analysis_error merchant_id e) = [''Analysis error'']"
    by (simp_all add: analysis_error_def)
next
  assume "centrality_try lib s merchant_id = Inl e"
  then show "analyze_centrality lib s merchant_id = empty_sub"
    by (simp add: analyze_centrality_def)
next
  assume "clustering_try lib s merchant_id = Inl e"
  then show "analyze_clustering lib s merchant_id = empty_sub"
    by (simp add: analyze_clustering_def)
next
  assume "velocity_try lib s merchant_id = Inl e"
  then show "analyze_velocity lib s merchant_id = empty_sub"
    by (simp add: analyze_velocity_def)
qed

lemma w8_miss: "cache_check w8 (cache_key_of ''M1'' (Some ''U1'')) 0 = None"
  by (simp add: w8_def w1_val record_defs graph_defs cache_check_def)

lemma w8_raises:
  "analyze_try var_env w8 ''M1'' (Some ''U1'') 0 = Inl (LibraryError ''unsupported operand'')"
  by (simp add: var_env_def w8_def w1_val record_defs eval_defs)

theorem analysis_error_boundary_witness:
  "cache_check w8 (cache_key_of ''M1'' (Some ''U1'')) 0 = None
   \<and> analyze_try var_env w8 ''M1'' (Some ''U1'') 0 = Inl (LibraryError ''unsupported operand'')
   \<and> analyze_merchant_risk var_env w8 ''M1'' (Some ''U1'') 0 0
       = (analysis_error ''M1'' (LibraryError ''unsupported operand''), w8)
   \<and> risk_score (fst (analyze_merchant_risk var_env w8 ''M1'' (Some ''U1'') 0 0)) = 0.5
   \<and> factors (fst (analyze_merchant_risk var_env w8 ''M1'' (Some ''U1'') 0 0))
       = [''Analysis error'']"
  using analysis_error_boundary [OF w8_miss, of var_env 0 "LibraryError ''unsupported operand''"] w8_miss w8_raises
  by simp

text \<open>
  Claim C3 fails as stated: on the graph of two nodes the betweenness centrality
  raises, the centrality analysis absorbs the error, and the result is an ordinary
  one, with risk score 0.1, no factor and no error entry.
\<close>

theorem metric_error_absorbed:
  "nx_betweenness_centrality sample_env (merchant_graph w1) 100
     = Inl (LibraryError ''Sample larger than population or is negative'')
   \<and> centrality_try sample_env w1 ''M1''
     = Inl (LibraryError ''Sample larger than population or is negative'')
   \<and> risk_score (fst (analyze_merchant_risk sample_env w1 ''M1'' None 0 0)) = 0.1
   \<and> factors (fst (analyze_merchant_risk sample_env w1 ''M1'' None 0 0)) = []
   \<and> error (fst (analyze_merchant_risk sample_env w1 ''M1'' None 0 0)) = None"
  by (simp add: w1_val eval_defs)

subsection \<open>The order of the time stamps\<close>

text \<open>
  What holds of the time stamps of a node in every reachable analyzer: \<open>first_seen\<close> is
  not after \<open>last_seen\<close>.
\<close>

lemma add_transaction_edge_nodes_ok:
  assumes "\<And>p. p \<in> set (nodes (merchant_graph s)) \<Longrightarrow> first_seen (snd p) \<le> last_seen (snd p)"
    and "p \<in> set (nodes (merchant_graph (snd (add_transaction_edge s user_id merchant_id amount
                 timestamp metadata))))"
  shows "first_seen (snd p) \<le> last_seen (snd p)"
proof -
  define ok where "ok = (\<lambda>g :: graph. \<forall>p \<in> set (nodes g). first_seen (snd p) \<le> last_seen (snd p))"
  have set_node_ok: "ok (set_node g n f)"
    if "ok g" "\<And>d. first_seen d \<le> last_seen d \<Longrightarrow> first_seen (f d) \<le> last_seen (f d)"
    for g n f
  proof -
    have "q \<in> set (nodes g) \<or> (\<exists>v. (n, v) \<in> set (nodes g) \<and> q = (n, f v))"
      if "q \<in> set (nodes (set_node g n f))" for q
      using that set_map_entry [of n f "nodes g"] by (auto simp: set_node_def)
    then show ?thesis using that unfolding ok_def by fastforce
  qed
  have add_node_ok: "ok (add_node g n d)" if "ok g" "first_seen d \<le> last_seen d" for g n d
  proof -
    have "q = (n, d) \<or> q \<in> set (nodes g)" if "q \<in> set (nodes (add_node g n d))" for q
      using that set_update_subset [of n d "nodes g"] by (auto simp: add_node_def)
    then show ?thesis using that unfolding ok_def by fastforce
  qed
  have g0: "ok (merchant_graph s)" using assms(1) by (simp add: ok_def)
  have g2: "ok (ensure_nodes (merchant_graph s) user_id merchant_id timestamp)"
    using g0 by (auto simp: ensure_nodes_def Let_def merchant_node_def user_node_def
        intro!: add_node_ok)
  have count: "first_seen (count_txn amount d) \<le> last_seen (count_txn amount d)"
    if "first_seen d \<le> last_seen d" for d
    using that by (simp add: count_txn_def)
  have seen1: "first_seen (seen_by user_id cs timestamp d) \<le> last_seen (seen_by user_id cs timestamp d)"
    if "first_seen d \<le> last_seen d" for d cs
    using that by (simp add: seen_by_def)
  have seen2: "first_seen (seen_at merchant_id ms timestamp d) \<le> last_seen (seen_at merchant_id ms timestamp d)"
    if "first_seen d \<le> last_seen d" for d ms
    using that by (simp add: seen_at_def)
  have put: "ok (put_edge g user_id merchant_id amount timestamp)" if "ok g" for g
    using that by (simp add: ok_def)
  have "ok (merchant_graph (snd (add_transaction_edge s user_id merchant_id amount
                 timestamp metadata)))"
    unfolding add_transaction_edge_unfold Let_def
    by (auto split: sum.splits intro!: put set_node_ok g2 count seen1 seen2)
  then show ?thesis using assms(2) unfolding ok_def by blast
qed

lemma reachable_seen_order:
  assumes "reachable s" and "p \<in> set (nodes (merchant_graph s))"
  shows "first_seen (snd p) \<le> last_seen (snd p)"
  using assms
proof (induction arbitrary: p rule: reachable.induct)
  case reachable_init
  then show ?case by (simp add: init_def)
next
  case (reachable_add s user_id merchant_id amount timestamp metadata)
  then show ?case using add_transaction_edge_nodes_ok by blast
next
  case (reachable_analyze s lib merchant_id user_id now now2)
  then show ?case by simp
qed

end
